theory Spec2Isabelle
  imports Main
begin

section \<open>Strings and bytes\<close>

text \<open>
  Go strings are byte sequences; they are modelled as \<open>string\<close> (a list of 8-bit
  \<open>char\<close>). The helpers below are the functions of Go's \<open>strings\<close> package that the
  repository calls. \<open>ToLower\<close> is modelled on ASCII letters; bytes from 0x80 on are
  left alone (Go would lower-case non-ASCII letters of a UTF-8 string as well).
\<close>

definition byte :: "char \<Rightarrow> nat" where
  "byte c = of_char c"

definition isDigit :: "char \<Rightarrow> bool" where
  "isDigit c = (48 \<le> byte c \<and> byte c \<le> 57)"

definition isUpper :: "char \<Rightarrow> bool" where
  "isUpper c = (65 \<le> byte c \<and> byte c \<le> 90)"

definition isLower :: "char \<Rightarrow> bool" where
  "isLower c = (97 \<le> byte c \<and> byte c \<le> 122)"

definition toLowerByte :: "char \<Rightarrow> char" where
  "toLowerByte c = (if isUpper c then char_of (byte c + 32) else c)"

definition ToLower :: "string \<Rightarrow> string" where
  "ToLower s = map toLowerByte s"

definition HasPrefix :: "string \<Rightarrow> string \<Rightarrow> bool" where
  "HasPrefix s p = (length p \<le> length s \<and> take (length p) s = p)"

definition HasSuffix :: "string \<Rightarrow> string \<Rightarrow> bool" where
  "HasSuffix s p = (length p \<le> length s \<and> drop (length s - length p) s = p)"

definition TrimSuffix :: "string \<Rightarrow> string \<Rightarrow> string" where
  "TrimSuffix s p = (if HasSuffix s p then take (length s - length p) s else s)"

text \<open>\<open>Index s sub\<close>: the position of the first occurrence of \<open>sub\<close>, if any.\<close>

fun Index :: "string \<Rightarrow> string \<Rightarrow> nat option" where
  "Index [] sub = (if sub = [] then Some 0 else None)"
| "Index (c # cs) sub =
     (if HasPrefix (c # cs) sub then Some 0
      else (case Index cs sub of None \<Rightarrow> None | Some i \<Rightarrow> Some (Suc i)))"

text \<open>\<open>LastIndex s sub\<close>: the position of the last occurrence of \<open>sub\<close>, if any.\<close>

fun LastIndex :: "string \<Rightarrow> string \<Rightarrow> nat option" where
  "LastIndex [] sub = (if sub = [] then Some 0 else None)"
| "LastIndex (c # cs) sub =
     (case LastIndex cs sub of
        Some i \<Rightarrow> Some (Suc i)
      | None \<Rightarrow> (if HasPrefix (c # cs) sub then Some 0 else None))"

definition Contains :: "string \<Rightarrow> string \<Rightarrow> bool" where
  "Contains s sub = (Index s sub \<noteq> None)"

text \<open>\<open>Cut s sep\<close> returns the text before and after the first \<open>sep\<close>, and whether
  \<open>sep\<close> was found; without \<open>sep\<close> it returns \<open>(s, '''', False)\<close>.\<close>

definition Cut :: "string \<Rightarrow> string \<Rightarrow> string \<times> string \<times> bool" where
  "Cut s sep =
     (case Index s sep of
        None \<Rightarrow> (s, [], False)
      | Some i \<Rightarrow> (take i s, drop (i + length sep) s, True))"

text \<open>\<open>TrimSpace\<close> on the ASCII white space characters (tab, line feed, vertical tab,
  form feed, carriage return, space).\<close>

definition isSpace :: "char \<Rightarrow> bool" where
  "isSpace c = (byte c = 32 \<or> (9 \<le> byte c \<and> byte c \<le> 13))"

definition TrimSpace :: "string \<Rightarrow> string" where
  "TrimSpace s = rev (dropWhile isSpace (rev (dropWhile isSpace s)))"

text \<open>Byte-wise comparison of strings, as Go's \<open><\<close> on strings and as SQLite's default
  (BINARY) collation on TEXT values compare them.\<close>

fun str_less :: "string \<Rightarrow> string \<Rightarrow> bool" where
  "str_less [] [] = False"
| "str_less [] (d # ds) = True"
| "str_less (c # cs) [] = False"
| "str_less (c # cs) (d # ds) =
     (if byte c < byte d then True
      else if byte d < byte c then False
      else str_less cs ds)"

section \<open>Decimal numbers\<close>

definition digitChar :: "nat \<Rightarrow> char" where
  "digitChar d = ''0123456789'' ! d"

fun itoa :: "nat \<Rightarrow> string" where
  "itoa n = (if n < 10 then [digitChar n] else itoa (n div 10) @ [digitChar (n mod 10)])"

declare itoa.simps [simp del]

definition zeroPad :: "nat \<Rightarrow> string \<Rightarrow> string" where
  "zeroPad w s = replicate (w - length s) (CHR ''0'') @ s"

definition digitsValue :: "string \<Rightarrow> nat" where
  "digitsValue ds = foldl (\<lambda>a c. 10 * a + (byte c - 48)) 0 ds"

text \<open>
  \<open>strconv.Atoi\<close>: an optional sign followed by one or more decimal digits, whose value
  fits a 64-bit \<open>int\<close>. \<open>None\<close> stands for a non-nil error (syntax or range); the
  callers in this repository look at the number only when the error is nil.
\<close>

definition Atoi :: "string \<Rightarrow> int option" where
  "Atoi s =
     (case s of
        [] \<Rightarrow> None
      | c # cs \<Rightarrow>
          (let neg = (c = CHR ''-'');
               ds = (if c = CHR ''-'' \<or> c = CHR ''+'' then cs else s)
           in if ds = [] \<or> \<not> list_all isDigit ds then None
              else (let n = int (digitsValue ds)
                    in if neg then (if n > 2 ^ 63 then None else Some (- n))
                       else (if n \<ge> 2 ^ 63 then None else Some n))))"

section \<open>Time\<close>

text \<open>
  A \<open>time.Time\<close> in UTC, by its civil fields. The API handler stamps every target with
  \<open>time.Now().UTC()\<close>, so UTC times are the ones the store holds. The zero
  \<open>time.Time\<close> is 1 January of year 1, 00:00:00 UTC.
\<close>

record time =
  Year :: nat
  Month :: nat
  Day :: nat
  Hour :: nat
  Minute :: nat
  Second :: nat
  Nanosecond :: nat

definition zeroTime :: time where
  "zeroTime = \<lparr>Year = 1, Month = 1, Day = 1, Hour = 0, Minute = 0, Second = 0, Nanosecond = 0\<rparr>"

definition IsZero :: "time \<Rightarrow> bool" where
  "IsZero t = (t = zeroTime)"

definition isLeap :: "nat \<Rightarrow> bool" where
  "isLeap y = (y mod 4 = 0 \<and> (y mod 100 \<noteq> 0 \<or> y mod 400 = 0))"

definition daysIn :: "nat \<Rightarrow> nat \<Rightarrow> nat" where
  "daysIn m y =
     (if m = 2 then (if isLeap y then 29 else 28)
      else if m = 4 \<or> m = 6 \<or> m = 9 \<or> m = 11 then 30 else 31)"

definition validTime :: "time \<Rightarrow> bool" where
  "validTime t =
     (Year t \<le> 9999 \<and> 1 \<le> Month t \<and> Month t \<le> 12 \<and> 1 \<le> Day t \<and> Day t \<le> daysIn (Month t) (Year t)
      \<and> Hour t < 24 \<and> Minute t < 60 \<and> Second t < 60 \<and> Nanosecond t < 1000000000)"

text \<open>Chronological order of UTC times (\<open>Time.Before\<close>): lexicographic on the fields.\<close>

definition timeKey :: "time \<Rightarrow> nat list" where
  "timeKey t = [Year t, Month t, Day t, Hour t, Minute t, Second t, Nanosecond t]"

fun keyLess :: "nat list \<Rightarrow> nat list \<Rightarrow> bool" where
  "keyLess (a # as) (b # bs) = (a < b \<or> (a = b \<and> keyLess as bs))"
| "keyLess _ _ = False"

definition Before :: "time \<Rightarrow> time \<Rightarrow> bool" where
  "Before a b = keyLess (timeKey a) (timeKey b)"

text \<open>
  \<open>Format(time.RFC3339Nano)\<close> of a UTC time. The layout is
  \<open>2006-01-02T15:04:05.999999999Z07:00\<close>: the digits \<open>9\<close> ask for the fractional second
  with its trailing zeros removed, and for nothing at all (not even the dot) when the
  nanoseconds are zero.
\<close>

definition trimZeros :: "string \<Rightarrow> string" where
  "trimZeros s = rev (dropWhile (\<lambda>c. c = CHR ''0'') (rev s))"

definition formatFrac :: "nat \<Rightarrow> string" where
  "formatFrac ns = (if ns = 0 then [] else CHR ''.'' # trimZeros (zeroPad 9 (itoa ns)))"

definition Format_RFC3339Nano :: "time \<Rightarrow> string" where
  "Format_RFC3339Nano t =
     zeroPad 4 (itoa (Year t)) @ ''-'' @ zeroPad 2 (itoa (Month t)) @ ''-'' @ zeroPad 2 (itoa (Day t))
     @ ''T'' @ zeroPad 2 (itoa (Hour t)) @ '':'' @ zeroPad 2 (itoa (Minute t)) @ '':''
     @ zeroPad 2 (itoa (Second t)) @ formatFrac (Nanosecond t) @ ''Z''"

text \<open>
  \<open>time.Parse(time.RFC3339Nano, s)\<close> on the strings that \<open>Format_RFC3339Nano\<close> writes:
  \<open>YYYY-MM-DDTHH:MM:SS\<close>, an optional fraction, and the zone \<open>Z\<close>. (Go's parser also
  accepts a numeric zone offset; the store never writes one.) A fraction longer than
  nine digits is cut to nanoseconds.
\<close>

definition parseFrac :: "string \<Rightarrow> nat option" where
  "parseFrac rest =
     (if rest = ''Z'' then Some 0
      else (case rest of
              [] \<Rightarrow> None
            | c # ds \<Rightarrow>
                (let digs = takeWhile isDigit ds; tl = dropWhile isDigit ds
                 in if c = CHR ''.'' \<and> digs \<noteq> [] \<and> tl = ''Z''
                    then Some (digitsValue (take 9 digs) * 10 ^ (9 - length (take 9 digs)))
                    else None)))"

definition Parse_RFC3339Nano :: "string \<Rightarrow> time option" where
  "Parse_RFC3339Nano s =
     (let d = take 19 s; rest = drop 19 s;
          fy = take 4 d; fm = take 2 (drop 5 d); fd = take 2 (drop 8 d);
          fH = take 2 (drop 11 d); fM = take 2 (drop 14 d); fS = take 2 (drop 17 d)
      in if length d = 19 \<and> d ! 4 = CHR ''-'' \<and> d ! 7 = CHR ''-'' \<and> d ! 10 = CHR ''T''
            \<and> d ! 13 = CHR '':'' \<and> d ! 16 = CHR '':''
            \<and> list_all isDigit (fy @ fm @ fd @ fH @ fM @ fS)
         then (case parseFrac rest of
                 None \<Rightarrow> None
               | Some ns \<Rightarrow>
                   (let t = \<lparr>Year = digitsValue fy, Month = digitsValue fm, Day = digitsValue fd,
                             Hour = digitsValue fH, Minute = digitsValue fM,
                             Second = digitsValue fS, Nanosecond = ns\<rparr>
                    in if validTime t then Some t else None))
         else None)"

section \<open>The API adapter: limits\<close>

text \<open>
  \<open>handlers.go\<close>, \<open>ListTargets\<close> (lines 98 to 103) and \<open>ListCheckResults\<close> (lines 174
  to 179): the argument is \<open>q.Get("limit")\<close>, which is the empty string when the
  parameter is absent.
\<close>

definition ListTargets_limit :: "string \<Rightarrow> int" where
  "ListTargets_limit l =
     (if l \<noteq> [] then
        (case Atoi l of
           Some v \<Rightarrow> (if v > 0 \<and> v \<le> 500 then v else 50)
         | None \<Rightarrow> 50)
      else 50)"

definition ListCheckResults_limit :: "string \<Rightarrow> int" where
  "ListCheckResults_limit l =
     (if l \<noteq> [] then
        (case Atoi l of
           Some v \<Rightarrow> (if v > 0 \<and> v \<le> 1000 then v else 100)
         | None \<Rightarrow> 100)
      else 100)"

section \<open>Go's URL type\<close>

text \<open>
  The canonicalizer is written on top of Go's \<open>net/url\<close>: \<open>url.Parse\<close>,
  \<open>URL.IsAbs\<close>, \<open>URL.Hostname\<close> and \<open>URL.String\<close>. This section models that
  library (as of Go 1.24, the version the repository builds with), function by
  function. An \<open>error\<close> return is \<open>None\<close>.
\<close>

datatype encoding =
  encodePath | encodePathSegment | encodeHost | encodeZone | encodeUserPassword
| encodeQueryComponent | encodeFragment

record Userinfo =
  username :: string
  password :: string
  passwordSet :: bool

record url =
  u_Scheme :: string
  u_Opaque :: string
  u_User :: "Userinfo option"
  u_Host :: string
  u_Path :: string
  u_RawPath :: string
  u_OmitHost :: bool
  u_ForceQuery :: bool
  u_RawQuery :: string
  u_Fragment :: string
  u_RawFragment :: string

definition emptyURL :: url where
  "emptyURL =
     \<lparr>u_Scheme = [], u_Opaque = [], u_User = None, u_Host = [], u_Path = [], u_RawPath = [],
      u_OmitHost = False, u_ForceQuery = False, u_RawQuery = [], u_Fragment = [],
      u_RawFragment = []\<rparr>"

definition ishex :: "char \<Rightarrow> bool" where
  "ishex c = (isDigit c \<or> (97 \<le> byte c \<and> byte c \<le> 102) \<or> (65 \<le> byte c \<and> byte c \<le> 70))"

definition unhex :: "char \<Rightarrow> nat" where
  "unhex c =
     (if isDigit c then byte c - 48
      else if 97 \<le> byte c \<and> byte c \<le> 102 then byte c - 97 + 10
      else if 65 \<le> byte c \<and> byte c \<le> 70 then byte c - 65 + 10
      else 0)"

definition upperhex :: "nat \<Rightarrow> char" where
  "upperhex n = ''0123456789ABCDEF'' ! n"

definition hostSubDelims :: string where
  "hostSubDelims = ''!$&'' @ [CHR 0x27] @ ''()*+,;=:[]<>'' @ [CHR 0x22]"

definition shouldEscape :: "char \<Rightarrow> encoding \<Rightarrow> bool" where
  "shouldEscape c mode =
     (if isLower c \<or> isUpper c \<or> isDigit c then False
      else if (mode = encodeHost \<or> mode = encodeZone) \<and> c \<in> set hostSubDelims then False
      else if c \<in> set ''-_.~'' then False
      else if c \<in> set ''$&+,/:;=?@'' \<and> mode = encodePath then c = CHR ''?''
      else if c \<in> set ''$&+,/:;=?@'' \<and> mode = encodePathSegment
        then c = CHR ''/'' \<or> c = CHR '';'' \<or> c = CHR '','' \<or> c = CHR ''?''
      else if c \<in> set ''$&+,/:;=?@'' \<and> mode = encodeUserPassword
        then c = CHR ''@'' \<or> c = CHR ''/'' \<or> c = CHR ''?'' \<or> c = CHR '':''
      else if c \<in> set ''$&+,/:;=?@'' \<and> mode = encodeQueryComponent then True
      else if c \<in> set ''$&+,/:;=?@'' \<and> mode = encodeFragment then False
      else if mode = encodeFragment \<and> c \<in> set ''!()*'' then False
      else True)"

text \<open>\<open>unescape\<close> checks that every \<open>%\<close> starts a well-formed escape (and, in a host,
  that only bytes from 0x80 on or \<open>%25\<close> are escaped), then decodes.\<close>

fun unescape :: "encoding \<Rightarrow> string \<Rightarrow> string option" where
  "unescape mode [] = Some []"
| "unescape mode [c] =
     (if c = CHR ''%'' then None
      else if c = CHR ''+'' then Some [if mode = encodeQueryComponent then CHR '' '' else CHR ''+'']
      else if (mode = encodeHost \<or> mode = encodeZone) \<and> byte c < 128 \<and> shouldEscape c encodeHost
        then None
      else Some [c])"
| "unescape mode [c, d] =
     (if c = CHR ''%'' then None
      else if c = CHR ''+''
        then map_option (\<lambda>r. (if mode = encodeQueryComponent then CHR '' '' else CHR ''+'') # r)
               (unescape mode [d])
      else if (mode = encodeHost \<or> mode = encodeZone) \<and> byte c < 128 \<and> shouldEscape c encodeHost
        then None
      else map_option (\<lambda>r. c # r) (unescape mode [d]))"
| "unescape mode (c # h1 # h2 # rest) =
     (if c = CHR ''%'' then
        (if \<not> ishex h1 \<or> \<not> ishex h2 then None
         else if mode = encodeHost \<and> unhex h1 < 8 \<and> [h1, h2] \<noteq> ''25'' then None
         else if mode = encodeZone \<and> [h1, h2] \<noteq> ''25'' \<and> unhex h1 * 16 + unhex h2 \<noteq> 32
                 \<and> shouldEscape (char_of (unhex h1 * 16 + unhex h2)) encodeHost then None
         else map_option (\<lambda>r. char_of (unhex h1 * 16 + unhex h2) # r) (unescape mode rest))
      else if c = CHR ''+''
        then map_option (\<lambda>r. (if mode = encodeQueryComponent then CHR '' '' else CHR ''+'') # r)
               (unescape mode (h1 # h2 # rest))
      else if (mode = encodeHost \<or> mode = encodeZone) \<and> byte c < 128 \<and> shouldEscape c encodeHost
        then None
      else map_option (\<lambda>r. c # r) (unescape mode (h1 # h2 # rest)))"

definition escapeByte :: "encoding \<Rightarrow> char \<Rightarrow> string" where
  "escapeByte mode c =
     (if shouldEscape c mode then
        (if c = CHR '' '' \<and> mode = encodeQueryComponent then ''+''
         else [CHR ''%'', upperhex (byte c div 16), upperhex (byte c mod 16)])
      else [c])"

definition escape :: "string \<Rightarrow> encoding \<Rightarrow> string" where
  "escape s mode = concat (map (escapeByte mode) s)"

definition validEncoded :: "string \<Rightarrow> encoding \<Rightarrow> bool" where
  "validEncoded s mode =
     list_all (\<lambda>c. c \<in> set (''!$&'' @ [CHR 0x27] @ ''()*+,;=:@[]%'') \<or> \<not> shouldEscape c mode) s"

definition stringContainsCTLByte :: "string \<Rightarrow> bool" where
  "stringContainsCTLByte s = list_ex (\<lambda>c. byte c < 32 \<or> byte c = 127) s"

text \<open>\<open>getScheme\<close>: \<open>getSchemeFrom raw i cs\<close> is its loop at index \<open>i\<close>, with \<open>cs\<close> the
  bytes of \<open>raw\<close> from \<open>i\<close> on. The result is the scheme and the rest.\<close>

fun getSchemeFrom :: "string \<Rightarrow> nat \<Rightarrow> string \<Rightarrow> (string \<times> string) option" where
  "getSchemeFrom raw i [] = Some ([], raw)"
| "getSchemeFrom raw i (c # cs) =
     (if isLower c \<or> isUpper c then getSchemeFrom raw (i + 1) cs
      else if isDigit c \<or> c = CHR ''+'' \<or> c = CHR ''-'' \<or> c = CHR ''.''
        then (if i = 0 then Some ([], raw) else getSchemeFrom raw (i + 1) cs)
      else if c = CHR '':''
        then (if i = 0 then None else Some (take i raw, drop (i + 1) raw))
      else Some ([], raw))"

definition getScheme :: "string \<Rightarrow> (string \<times> string) option" where
  "getScheme rawURL = getSchemeFrom rawURL 0 rawURL"

definition validOptionalPort :: "string \<Rightarrow> bool" where
  "validOptionalPort port =
     (case port of
        [] \<Rightarrow> True
      | c # ds \<Rightarrow> c = CHR '':'' \<and> list_all isDigit ds)"

definition parseHost :: "string \<Rightarrow> string option" where
  "parseHost host =
     (if HasPrefix host ''['' then
        (case LastIndex host '']'' of
           None \<Rightarrow> None
         | Some i \<Rightarrow>
             (if \<not> validOptionalPort (drop (i + 1) host) then None
              else (case Index (take i host) ''%25'' of
                      Some zone \<Rightarrow>
                        (case unescape encodeHost (take zone host) of
                           None \<Rightarrow> None
                         | Some host1 \<Rightarrow>
                             (case unescape encodeZone (drop zone (take i host)) of
                                None \<Rightarrow> None
                              | Some host2 \<Rightarrow>
                                  (case unescape encodeHost (drop i host) of
                                     None \<Rightarrow> None
                                   | Some host3 \<Rightarrow> Some (host1 @ host2 @ host3))))
                    | None \<Rightarrow> unescape encodeHost host)))
      else
        (case LastIndex host '':'' of
           Some i \<Rightarrow> (if \<not> validOptionalPort (drop i host) then None else unescape encodeHost host)
         | None \<Rightarrow> unescape encodeHost host))"

definition validUserinfo :: "string \<Rightarrow> bool" where
  "validUserinfo s =
     list_all (\<lambda>c. isUpper c \<or> isLower c \<or> isDigit c
                  \<or> c \<in> set (''-._:~!$&'' @ [CHR 0x27] @ ''()*+,;=%@'')) s"

definition parseAuthority :: "string \<Rightarrow> (Userinfo option \<times> string) option" where
  "parseAuthority authority =
     (case LastIndex authority ''@'' of
        None \<Rightarrow> (case parseHost authority of None \<Rightarrow> None | Some host \<Rightarrow> Some (None, host))
      | Some i \<Rightarrow>
          (case parseHost (drop (i + 1) authority) of
             None \<Rightarrow> None
           | Some host \<Rightarrow>
               (let userinfo = take i authority
                in if \<not> validUserinfo userinfo then None
                   else if \<not> Contains userinfo '':'' then
                     (case unescape encodeUserPassword userinfo of
                        None \<Rightarrow> None
                      | Some u \<Rightarrow>
                          Some (Some \<lparr>username = u, password = [], passwordSet = False\<rparr>, host))
                   else
                     (case Cut userinfo '':'' of
                        (un, pw, _) \<Rightarrow>
                          (case unescape encodeUserPassword un of
                             None \<Rightarrow> None
                           | Some un' \<Rightarrow>
                               (case unescape encodeUserPassword pw of
                                  None \<Rightarrow> None
                                | Some pw' \<Rightarrow>
                                    Some (Some \<lparr>username = un', password = pw',
                                                passwordSet = True\<rparr>, host)))))))"

definition setPath :: "url \<Rightarrow> string \<Rightarrow> url option" where
  "setPath u p =
     (case unescape encodePath p of
        None \<Rightarrow> None
      | Some path \<Rightarrow>
          Some (u\<lparr>u_Path := path, u_RawPath := (if p = escape path encodePath then [] else p)\<rparr>))"

definition setFragment :: "url \<Rightarrow> string \<Rightarrow> url option" where
  "setFragment u f =
     (case unescape encodeFragment f of
        None \<Rightarrow> None
      | Some frag \<Rightarrow>
          Some (u\<lparr>u_Fragment := frag,
                  u_RawFragment := (if f = escape frag encodeFragment then [] else f)\<rparr>))"

text \<open>\<open>parse(rawURL, viaRequest = false)\<close>: the URL without its fragment.\<close>

definition parse :: "string \<Rightarrow> url option" where
  "parse rawURL =
     (if stringContainsCTLByte rawURL then None
      else if rawURL = ''*'' then Some (emptyURL\<lparr>u_Path := ''*''\<rparr>)
      else
        (case getScheme rawURL of
           None \<Rightarrow> None
         | Some (scheme0, rest0) \<Rightarrow>
             (let scheme = ToLower scheme0;
                  force = (HasSuffix rest0 ''?'' \<and> length (filter (\<lambda>c. c = CHR ''?'') rest0) = 1);
                  rest = (if force then butlast rest0 else fst (Cut rest0 ''?''));
                  query = (if force then [] else fst (snd (Cut rest0 ''?'')));
                  u = emptyURL\<lparr>u_Scheme := scheme, u_ForceQuery := force, u_RawQuery := query\<rparr>
              in if \<not> HasPrefix rest ''/'' \<and> scheme \<noteq> [] then Some (u\<lparr>u_Opaque := rest\<rparr>)
                 else if \<not> HasPrefix rest ''/'' \<and> Contains (fst (Cut rest ''/'')) '':'' then None
                 else if (scheme \<noteq> [] \<or> \<not> HasPrefix rest ''///'') \<and> HasPrefix rest ''//'' then
                   (let authority0 = drop 2 rest;
                        authority = (case Index authority0 ''/'' of
                                       Some i \<Rightarrow> take i authority0 | None \<Rightarrow> authority0);
                        rest' = (case Index authority0 ''/'' of
                                   Some i \<Rightarrow> drop i authority0 | None \<Rightarrow> [])
                    in case parseAuthority authority of
                         None \<Rightarrow> None
                       | Some (user, host) \<Rightarrow> setPath (u\<lparr>u_User := user, u_Host := host\<rparr>) rest')
                 else if scheme \<noteq> [] \<and> HasPrefix rest ''/'' then setPath (u\<lparr>u_OmitHost := True\<rparr>) rest
                 else setPath u rest)))"

definition Parse :: "string \<Rightarrow> url option" where
  "Parse rawURL =
     (case Cut rawURL ''#'' of
        (u, frag, _) \<Rightarrow>
          (case parse u of
             None \<Rightarrow> None
           | Some url \<Rightarrow> (if frag = [] then Some url else setFragment url frag)))"

definition IsAbs :: "url \<Rightarrow> bool" where
  "IsAbs u = (u_Scheme u \<noteq> [])"

text \<open>\<open>Hostname\<close> is the host of \<open>splitHostPort\<close>: a valid port is cut off at the last
  colon, and then the square brackets of an IPv6 literal are removed.\<close>

definition splitHostPort :: "string \<Rightarrow> string \<times> string" where
  "splitHostPort hostPort =
     (let hp = (case LastIndex hostPort '':'' of
                  Some colon \<Rightarrow>
                    (if validOptionalPort (drop colon hostPort)
                     then (take colon hostPort, drop (colon + 1) hostPort)
                     else (hostPort, []))
                | None \<Rightarrow> (hostPort, []));
          host = fst hp
      in if HasPrefix host ''['' \<and> HasSuffix host '']''
         then (take (length host - 2) (drop 1 host), snd hp)
         else hp)"

definition Hostname :: "url \<Rightarrow> string" where
  "Hostname u = fst (splitHostPort (u_Host u))"

definition EscapedPath :: "url \<Rightarrow> string" where
  "EscapedPath u =
     (if u_RawPath u \<noteq> [] \<and> validEncoded (u_RawPath u) encodePath
         \<and> unescape encodePath (u_RawPath u) = Some (u_Path u)
      then u_RawPath u
      else if u_Path u = ''*'' then ''*''
      else escape (u_Path u) encodePath)"

definition EscapedFragment :: "url \<Rightarrow> string" where
  "EscapedFragment u =
     (if u_RawFragment u \<noteq> [] \<and> validEncoded (u_RawFragment u) encodeFragment
         \<and> unescape encodeFragment (u_RawFragment u) = Some (u_Fragment u)
      then u_RawFragment u
      else escape (u_Fragment u) encodeFragment)"

definition UserinfoString :: "Userinfo \<Rightarrow> string" where
  "UserinfoString ui =
     escape (username ui) encodeUserPassword
     @ (if passwordSet ui then '':'' @ escape (password ui) encodeUserPassword else [])"

text \<open>\<open>URL.String\<close>, in the order in which it writes to its buffer.\<close>

definition String :: "url \<Rightarrow> string" where
  "String u =
     (let b1 = (if u_Scheme u \<noteq> [] then u_Scheme u @ '':'' else []);
          b2 =
            (if u_Opaque u \<noteq> [] then b1 @ u_Opaque u
             else
               (let b3 =
                      (if u_Scheme u \<noteq> [] \<or> u_Host u \<noteq> [] \<or> u_User u \<noteq> None then
                         (if u_OmitHost u \<and> u_Host u = [] \<and> u_User u = None then b1
                          else
                            b1
                            @ (if u_Host u \<noteq> [] \<or> u_Path u \<noteq> [] \<or> u_User u \<noteq> None
                               then ''//'' else [])
                            @ (case u_User u of
                                 None \<Rightarrow> []
                               | Some ui \<Rightarrow> UserinfoString ui @ ''@'')
                            @ (if u_Host u \<noteq> [] then escape (u_Host u) encodeHost else []))
                       else b1);
                    path = EscapedPath u;
                    b4 = (if path \<noteq> [] \<and> hd path \<noteq> CHR ''/'' \<and> u_Host u \<noteq> []
                          then b3 @ ''/'' else b3);
                    b5 = (if b4 = [] \<and> Contains (fst (Cut path ''/'')) '':''
                          then b4 @ ''./'' else b4)
                in b5 @ path))
      in b2
         @ (if u_ForceQuery u \<or> u_RawQuery u \<noteq> [] then ''?'' @ u_RawQuery u else [])
         @ (if u_Fragment u \<noteq> [] then ''#'' @ EscapedFragment u else []))"

section \<open>The URL canonicalizer\<close>

text \<open>\<open>canonical.go\<close>, \<open>Canonicalize\<close>. \<open>Inl\<close> carries the error message (for a
  parse failure, without the wrapped cause).\<close>

definition Canonicalize :: "string \<Rightarrow> string + string" where
  "Canonicalize rawURL =
     (case Parse rawURL of
        None \<Rightarrow> Inl ''failed to parse url''
      | Some u \<Rightarrow>
          (if \<not> IsAbs u \<or> (u_Scheme u \<noteq> ''http'' \<and> u_Scheme u \<noteq> ''https'')
           then Inl ''url must be an absolute http or https url''
           else
             (let u1 = u\<lparr>u_Scheme := ToLower (u_Scheme u)\<rparr>;
                  u2 = u1\<lparr>u_Host := ToLower (u_Host u1)\<rparr>;
                  u3 = (if (u_Scheme u2 = ''http'' \<and> HasSuffix (u_Host u2) '':80'')
                           \<or> (u_Scheme u2 = ''https'' \<and> HasSuffix (u_Host u2) '':443'')
                        then u2\<lparr>u_Host := Hostname u2\<rparr> else u2);
                  u4 = u3\<lparr>u_Fragment := []\<rparr>;
                  u5 = (if length (u_Path u4) > 1 \<and> HasSuffix (u_Path u4) ''/''
                        then u4\<lparr>u_Path := TrimSuffix (u_Path u4) ''/''\<rparr> else u4)
              in Inr (String u5))))"

section \<open>Models and the storage interface\<close>

text \<open>\<open>models.go\<close>: \<open>Target\<close> and \<open>CheckResult\<close>. The pointer fields \<open>*int\<close> and
  \<open>*string\<close> are options: \<open>None\<close> is the nil pointer, stored as SQL NULL and emitted as
  JSON null. Field names are global in a theory, so where two structs share a name the
  later one carries a prefix: \<open>CR_ID\<close> is \<open>CheckResult.ID\<close>, \<open>p_Host\<close> is
  \<open>ListTargetsParams.Host\<close>, \<open>q_Limit\<close> is \<open>ListCheckResultsParams.Limit\<close>, and so
  on (as \<open>u_Host\<close> above is \<open>URL.Host\<close>).\<close>

record Target =
  ID :: string
  URL :: string
  CanonicalURL :: string
  Host :: string
  CreatedAt :: time

record CheckResult =
  CR_ID :: string
  TargetID :: string
  CheckedAt :: time
  StatusCode :: "int option"
  LatencyMS :: int
  Error :: "string option"

text \<open>The errors of package \<open>storage\<close>: its two sentinels, and any other failure.\<close>

datatype error = ErrDuplicateKey | ErrNotFound | StoreError string

record ListTargetsParams =
  p_Host :: string
  p_AfterTime :: time
  p_AfterID :: string
  p_Limit :: int

record ListCheckResultsParams =
  q_TargetID :: string
  q_Since :: "time option"
  q_Limit :: int

section \<open>The SQLite store\<close>

text \<open>
  \<open>store.go\<close>. The database is its three tables, each a list of rows in insertion
  order; every timestamp column is TEXT. The constraints of the schema that the
  statements below can violate are modelled: \<open>targets.id\<close> PRIMARY KEY,
  \<open>targets.canonical_url\<close> UNIQUE, \<open>idempotency_keys.key\<close> PRIMARY KEY,
  \<open>check_results.id\<close> PRIMARY KEY and the foreign key of \<open>check_results.target_id\<close>.
  Failures of the connection itself (I/O, cancelled context) are not modelled.
\<close>

record target_row =
  r_id :: string
  r_url :: string
  r_canonical_url :: string
  r_host :: string
  r_created_at :: string

record idempotency_row =
  k_key :: string
  k_target_id :: string
  k_created_at :: string

record check_row =
  c_id :: string
  c_target_id :: string
  c_checked_at :: string
  c_status_code :: "int option"
  c_latency_ms :: int
  c_error :: "string option"

record db =
  targets :: "target_row list"
  idempotency_keys :: "idempotency_row list"
  check_results :: "check_row list"

definition emptyDB :: db where
  "emptyDB = \<lparr>targets = [], idempotency_keys = [], check_results = []\<rparr>"

text \<open>Scanning a row of \<open>targets\<close>: the error of \<open>time.Parse\<close> is dropped by the code
  (\<open>t.CreatedAt, _ = time.Parse(...)\<close>), which leaves the zero time.\<close>

definition scanTarget :: "target_row \<Rightarrow> Target" where
  "scanTarget r =
     \<lparr>ID = r_id r, URL = r_url r, CanonicalURL = r_canonical_url r, Host = r_host r,
      CreatedAt = (case Parse_RFC3339Nano (r_created_at r) of Some t \<Rightarrow> t | None \<Rightarrow> zeroTime)\<rparr>"

definition targetRow :: "Target \<Rightarrow> target_row" where
  "targetRow t =
     \<lparr>r_id = ID t, r_url = URL t, r_canonical_url = CanonicalURL t, r_host = Host t,
      r_created_at = Format_RFC3339Nano (CreatedAt t)\<rparr>"

definition getTargetByIDTx :: "db \<Rightarrow> string \<Rightarrow> Target option \<times> error option" where
  "getTargetByIDTx d i =
     (case find (\<lambda>r. r_id r = i) (targets d) of
        None \<Rightarrow> (None, Some ErrNotFound)
      | Some r \<Rightarrow> (Some (scanTarget r), None))"

definition GetTargetByID :: "db \<Rightarrow> string \<Rightarrow> Target option \<times> error option" where
  "GetTargetByID d i =
     (case find (\<lambda>r. r_id r = i) (targets d) of
        None \<Rightarrow> (None, Some ErrNotFound)
      | Some r \<Rightarrow> (Some (scanTarget r), None))"

text \<open>
  \<open>CreateTarget\<close> runs in one transaction; every return before \<open>tx.Commit()\<close> rolls
  back (\<open>defer tx.Rollback()\<close>), so the database is returned unchanged there.
  \<open>now\<close> is the \<open>time.Now().UTC()\<close> read for the idempotency record.

  \<open>INSERT ... ON CONFLICT(canonical_url) DO NOTHING\<close>: a row with the same
  \<open>canonical_url\<close> makes the statement a no-op (no row affected); SQLite tests the
  constraint named by the conflict target before the others. A clash on the primary
  key alone aborts the statement.
\<close>

definition CreateTarget ::
  "time \<Rightarrow> Target \<Rightarrow> string option \<Rightarrow> db \<Rightarrow> (Target option \<times> error option) \<times> db" where
  "CreateTarget now target idempotencyKey d =
     (case (case idempotencyKey of
              None \<Rightarrow> None
            | Some k \<Rightarrow> find (\<lambda>r. k_key r = k) (idempotency_keys d)) of
        Some kr \<Rightarrow> (getTargetByIDTx d (k_target_id kr), d)
      | None \<Rightarrow>
          (case find (\<lambda>r. r_canonical_url r = CanonicalURL target) (targets d) of
             Some r \<Rightarrow> ((Some (scanTarget r), Some ErrDuplicateKey), d)
           | None \<Rightarrow>
               (if list_ex (\<lambda>r. r_id r = ID target) (targets d)
                then ((None, Some (StoreError ''failed to insert target'')), d)
                else
                  (let d1 = d\<lparr>targets := targets d @ [targetRow target]\<rparr>
                   in (case idempotencyKey of
                         None \<Rightarrow> ((Some target, None), d1)
                       | Some k \<Rightarrow>
                           (if list_ex (\<lambda>r. k_key r = k) (idempotency_keys d1)
                            then ((None, Some (StoreError ''failed to record idempotency key'')), d)
                            else ((Some target, None),
                                  d1\<lparr>idempotency_keys := idempotency_keys d1 @
                                        [\<lparr>k_key = k, k_target_id = ID target,
                                          k_created_at = Format_RFC3339Nano now\<rparr>]\<rparr>)))))))"

text \<open>
  \<open>ListTargets\<close>. The row value comparison \<open>(created_at, id) > (?, ?)\<close> and
  \<open>ORDER BY created_at, id\<close> both compare the TEXT columns byte-wise. A negative
  \<open>LIMIT\<close> means no limit in SQLite.
\<close>

definition rowLess :: "string \<times> string \<Rightarrow> string \<times> string \<Rightarrow> bool" where
  "rowLess a b = (str_less (fst a) (fst b) \<or> (fst a = fst b \<and> str_less (snd a) (snd b)))"

definition rowKey :: "target_row \<Rightarrow> string \<times> string" where
  "rowKey r = (r_created_at r, r_id r)"

fun insertRow :: "target_row \<Rightarrow> target_row list \<Rightarrow> target_row list" where
  "insertRow r [] = [r]"
| "insertRow r (x # xs) = (if rowLess (rowKey r) (rowKey x) then r # x # xs else x # insertRow r xs)"

definition orderByCreatedAtID :: "target_row list \<Rightarrow> target_row list" where
  "orderByCreatedAtID rs = foldr insertRow rs []"

definition sqlLimit :: "int \<Rightarrow> 'a list \<Rightarrow> 'a list" where
  "sqlLimit n rs = (if n < 0 then rs else take (nat n) rs)"

definition ListTargets :: "db \<Rightarrow> ListTargetsParams \<Rightarrow> Target list" where
  "ListTargets d params =
     (let rs1 = (if p_Host params \<noteq> [] then filter (\<lambda>r. r_host r = p_Host params) (targets d)
                 else targets d);
          rs2 = (if \<not> IsZero (p_AfterTime params) \<and> p_AfterID params \<noteq> []
                 then filter (\<lambda>r. rowLess (Format_RFC3339Nano (p_AfterTime params), p_AfterID params)
                                           (rowKey r)) rs1
                 else rs1)
      in map scanTarget (sqlLimit (p_Limit params) (orderByCreatedAtID rs2)))"

definition GetAllTargets :: "db \<Rightarrow> Target list" where
  "GetAllTargets d = map scanTarget (orderByCreatedAtID (targets d))"

text \<open>\<open>CreateCheckResult\<close>; \<open>newID\<close> is what \<open>randomID("cr_")\<close> returns.\<close>

definition CreateCheckResult :: "string \<Rightarrow> CheckResult \<Rightarrow> db \<Rightarrow> error option \<times> db" where
  "CreateCheckResult newID result d =
     (let i = (if CR_ID result = [] then newID else CR_ID result)
      in if list_ex (\<lambda>r. c_id r = i) (check_results d)
            \<or> \<not> list_ex (\<lambda>r. r_id r = TargetID result) (targets d)
         then (Some (StoreError ''failed to create check result''), d)
         else (None, d\<lparr>check_results := check_results d @
                 [\<lparr>c_id = i, c_target_id = TargetID result,
                   c_checked_at = Format_RFC3339Nano (CheckedAt result),
                   c_status_code = StatusCode result, c_latency_ms = LatencyMS result,
                   c_error = Error result\<rparr>]\<rparr>))"

section \<open>The host limiter\<close>

text \<open>\<open>limiter.go\<close>: the set of hosts in use. Each call runs under the limiter's mutex,
  so a call is one atomic step on this state.\<close>

record HostLimiter =
  hosts :: "string set"

definition NewHostLimiter :: HostLimiter where
  "NewHostLimiter = \<lparr>hosts = {}\<rparr>"

definition Acquire :: "HostLimiter \<Rightarrow> string \<Rightarrow> bool \<times> HostLimiter" where
  "Acquire hl host =
     (if host \<in> hosts hl then (False, hl)
      else (True, hl\<lparr>hosts := insert host (hosts hl)\<rparr>))"

definition Release :: "HostLimiter \<Rightarrow> string \<Rightarrow> HostLimiter" where
  "Release hl host = hl\<lparr>hosts := hosts hl - {host}\<rparr>"

section \<open>The probe\<close>

text \<open>
  \<open>pool.go\<close>, \<open>performCheck\<close>. What the network does is the environment: for each
  attempt (numbered from 1) the time at which it starts and its outcome. An attempt
  either fails to build its request (\<open>http.NewRequestWithContext\<close> returns an error),
  or \<open>httpClient.Do\<close> fails (a transport, I/O or deadline failure), or a response with a
  status code arrives. Latencies and the back-off are \<open>time.Duration\<close> values, in
  nanoseconds; the back-off is doubled at most twice, so it stays far below
  \<open>2 ^ 63\<close>.
\<close>

datatype outcome =
  NewRequestError string
| DoError string int
| Response int int

record attempt =
  at_start :: time
  at_outcome :: outcome

record probe_state =
  attempts :: nat
  backoff :: int
  statusCode :: "int option"
  errMsg :: "string option"
  startTime :: time
  latency :: int
  slept :: "int list"

definition maxAttempts :: nat where
  "maxAttempts = 3"

definition millisecond :: int where
  "millisecond = 1000000"

definition retry :: "int \<Rightarrow> string option \<Rightarrow> bool" where
  "retry code err = (if err \<noteq> None then True else code \<ge> 500 \<and> code \<le> 599)"

text \<open>The variables of \<open>performCheck\<close> before its loop; \<open>slept\<close> records the
  arguments of \<open>time.Sleep\<close>, in order.\<close>

definition initState :: probe_state where
  "initState =
     \<lparr>attempts = 0, backoff = 200 * millisecond, statusCode = None, errMsg = None,
      startTime = zeroTime, latency = 0, slept = []\<rparr>"

text \<open>
  One pass through the body of the \<open>for\<close> loop, given the attempt the environment
  produces: the state after it, and whether the loop continues (\<open>continue\<close>) or ends
  (\<open>break\<close>).
\<close>

definition retryTail :: "probe_state \<Rightarrow> string option \<Rightarrow> probe_state \<times> bool" where
  "retryTail st err =
     (let code = (case statusCode st of Some c \<Rightarrow> c | None \<Rightarrow> 0)
      in if attempts st < maxAttempts \<and> retry code err
         then (st\<lparr>slept := slept st @ [backoff st], backoff := backoff st * 2\<rparr>, True)
         else (st, False))"

definition loopBody :: "attempt \<Rightarrow> probe_state \<Rightarrow> probe_state \<times> bool" where
  "loopBody a st0 =
     (let st = st0\<lparr>attempts := attempts st0 + 1, startTime := at_start a\<rparr>
      in case at_outcome a of
           NewRequestError m \<Rightarrow> (st\<lparr>errMsg := Some m\<rparr>, False)
         | DoError m lat \<Rightarrow> retryTail (st\<lparr>latency := lat, errMsg := Some m\<rparr>) (Some m)
         | Response status lat \<Rightarrow> retryTail (st\<lparr>latency := lat, statusCode := Some status\<rparr>) None)"

lemma loopBody_continues:
  assumes "loopBody a st = (st', True)"
  shows "attempts st' = attempts st + 1 \<and> attempts st' < maxAttempts"
  using assms
  by (auto simp: loopBody_def retryTail_def Let_def split: outcome.splits if_splits)

text \<open>The \<open>for\<close> loop. It ends because \<open>continue\<close> is reached only while
  \<open>attempts < maxAttempts\<close>.\<close>

function performCheck_loop :: "(nat \<Rightarrow> attempt) \<Rightarrow> probe_state \<Rightarrow> probe_state" where
  "performCheck_loop env st =
     (case loopBody (env (attempts st + 1)) st of
        (st', True) \<Rightarrow> performCheck_loop env st'
      | (st', False) \<Rightarrow> st')"
  by pat_completeness auto
termination
  by (relation "measure (\<lambda>(env, st). maxAttempts - attempts st)")
     (auto dest!: sym [THEN loopBody_continues])

declare performCheck_loop.simps [simp del]

definition Milliseconds :: "int \<Rightarrow> int" where
  "Milliseconds d = (if d \<ge> 0 then d div millisecond else - ((- d) div millisecond))"

text \<open>
  What one call of \<open>performCheck\<close> does: whether it acquired the host, how many
  attempts it made, the durations it slept, and the results it handed to
  \<open>store.CreateCheckResult\<close>, in order. The deferred \<open>Release\<close> runs when the function
  returns, after the result is handed to the store.
\<close>

record probe_effects =
  acquired :: bool
  attempts_made :: nat
  sleeps :: "int list"
  saved :: "CheckResult list"

definition probeResult :: "Target \<Rightarrow> probe_state \<Rightarrow> CheckResult" where
  "probeResult target st =
     \<lparr>CR_ID = [], TargetID = ID target, CheckedAt = startTime st, StatusCode = statusCode st,
      LatencyMS = Milliseconds (latency st), Error = errMsg st\<rparr>"

definition performCheck ::
  "(nat \<Rightarrow> attempt) \<Rightarrow> Target \<Rightarrow> HostLimiter \<Rightarrow> HostLimiter \<times> probe_effects" where
  "performCheck env target hl =
     (case Acquire hl (Host target) of
        (False, hl1) \<Rightarrow> (hl1, \<lparr>acquired = False, attempts_made = 0, sleeps = [], saved = []\<rparr>)
      | (True, hl1) \<Rightarrow>
          (let st = performCheck_loop env initState
           in (Release hl1 (Host target),
               \<lparr>acquired = True, attempts_made = attempts st, sleeps = slept st,
                saved = [probeResult target st]\<rparr>)))"

section \<open>The worker pool as a transition system\<close>

text \<open>
  Several workers run \<open>performCheck\<close> at once on one limiter (\<open>startWorkers\<close>). The
  limiter's calls are atomic, so an execution of the pool is an interleaving of these
  steps of its workers:
  \<^item> a worker that is idle takes a target from the queue and calls \<open>Acquire\<close>; on
    \<open>False\<close> \<open>performCheck\<close> returns at once and the worker is idle again, on \<open>True\<close>
    the worker is probing the target;
  \<^item> a probing worker finishes its attempts and hands its result to the store;
  \<^item> the deferred \<open>Release\<close> runs and the worker is idle again.
  A probe is in flight from its successful \<open>Acquire\<close> to its \<open>Release\<close>.
\<close>

datatype worker = Idle | Probing Target | Persisted Target

record pool =
  limiter :: HostLimiter
  workers :: "nat \<Rightarrow> worker"
  written :: "CheckResult list"

definition newPool :: pool where
  "newPool = \<lparr>limiter = NewHostLimiter, workers = (\<lambda>w. Idle), written = []\<rparr>"

fun inFlight :: "worker \<Rightarrow> Target option" where
  "inFlight Idle = None"
| "inFlight (Probing t) = Some t"
| "inFlight (Persisted t) = Some t"

inductive pool_step :: "pool \<Rightarrow> pool \<Rightarrow> bool" where
  acquire_ok:
    "workers p w = Idle \<Longrightarrow> Acquire (limiter p) (Host t) = (True, hl) \<Longrightarrow>
     pool_step p (p\<lparr>limiter := hl, workers := (workers p)(w := Probing t)\<rparr>)"
| acquire_fail:
    "workers p w = Idle \<Longrightarrow> Acquire (limiter p) (Host (t :: Target)) = (False, hl) \<Longrightarrow>
     pool_step p (p\<lparr>limiter := hl\<rparr>)"
| persist:
    "workers p w = Probing t \<Longrightarrow>
     pool_step p (p\<lparr>workers := (workers p)(w := Persisted t),
                    written := written p @ [probeResult t (performCheck_loop env initState)]\<rparr>)"
| release:
    "workers p w = Persisted t \<Longrightarrow>
     pool_step p (p\<lparr>limiter := Release (limiter p) (Host t), workers := (workers p)(w := Idle)\<rparr>)"

inductive reachable :: "pool \<Rightarrow> bool" where
  start: "reachable newPool"
| step: "reachable p \<Longrightarrow> pool_step p p' \<Longrightarrow> reachable p'"

section \<open>The API adapter: handlers\<close>

text \<open>
  \<open>handlers.go\<close>. A handler is written against the interface \<open>storage.Storer\<close>, so
  each model takes the store operations it calls as arguments; an operation returns
  the pair of Go results (value, error). What the handler reads from its surroundings is
  an argument too: the decoded request body, header and query values, the fresh id of
  \<open>generateID\<close>, the clock, and the library codecs whose input comes from the client
  (\<open>base64.URLEncoding\<close> and \<open>time.Parse\<close>, each returning \<open>None\<close> for an error).
\<close>

datatype response =
  ErrorResponse nat string
| TargetResponse nat "Target option"
| TargetsResponse nat "Target list" string
| ResultsResponse nat "CheckResult list"
| HandlerPanic

fun statusOf :: "response \<Rightarrow> nat option" where
  "statusOf (ErrorResponse c m) = Some c"
| "statusOf (TargetResponse c t) = Some c"
| "statusOf (TargetsResponse c ts tok) = Some c"
| "statusOf (ResultsResponse c rs) = Some c"
| "statusOf HandlerPanic = None"

definition StatusOK :: nat where "StatusOK = 200"
definition StatusCreated :: nat where "StatusCreated = 201"
definition StatusBadRequest :: nat where "StatusBadRequest = 400"
definition StatusNotFound :: nat where "StatusNotFound = 404"
definition StatusInternalServerError :: nat where "StatusInternalServerError = 500"

text \<open>
  \<open>CreateTarget\<close>: \<open>body\<close> is the \<open>url\<close> member of the decoded JSON body (\<open>None\<close> when
  decoding fails), \<open>idempotencyKey\<close> the value of the \<open>Idempotency-Key\<close> header (empty
  when absent). The error of the second \<open>url.Parse\<close> is dropped by the code; a nil
  result would make \<open>parsedURL.Hostname()\<close> panic.
\<close>

definition Handlers_CreateTarget ::
  "(Target \<Rightarrow> string option \<Rightarrow> 's \<Rightarrow> (Target option \<times> error option) \<times> 's) \<Rightarrow>
   string \<Rightarrow> time \<Rightarrow> string option \<Rightarrow> string \<Rightarrow> 's \<Rightarrow> response \<times> 's" where
  "Handlers_CreateTarget store_CreateTarget newID now body idempotencyKey st =
     (case body of
        None \<Rightarrow> (ErrorResponse StatusBadRequest ''invalid request body'', st)
      | Some reqURL \<Rightarrow>
          (case Canonicalize reqURL of
             Inl e \<Rightarrow> (ErrorResponse StatusBadRequest e, st)
           | Inr canonicalURL \<Rightarrow>
               (case Parse canonicalURL of
                  None \<Rightarrow> (HandlerPanic, st)
                | Some parsedURL \<Rightarrow>
                    (let target = \<lparr>ID = newID, URL = reqURL, CanonicalURL = canonicalURL,
                                   Host = Hostname parsedURL, CreatedAt = now\<rparr>;
                         keyPtr = (if idempotencyKey \<noteq> [] then Some idempotencyKey else None)
                     in case store_CreateTarget target keyPtr st of
                          ((createdTarget, err), st') \<Rightarrow>
                            (if err \<noteq> None \<and> err \<noteq> Some ErrDuplicateKey
                             then (ErrorResponse StatusInternalServerError ''internal server error'', st')
                             else (TargetResponse
                                     (if err = Some ErrDuplicateKey then StatusOK else StatusCreated)
                                     createdTarget, st'))))))"

record codecs =
  DecodeString :: "string \<Rightarrow> string option"
  EncodeToString :: "string \<Rightarrow> string"
  timeParse :: "string \<Rightarrow> time option"

text \<open>The cursor of \<open>ListTargets\<close> (lines 107 to 120): \<open>token\<close> is
  \<open>q.Get("page_token")\<close>; without a usable token both variables keep their zero
  values.\<close>

definition ListTargets_cursor :: "codecs \<Rightarrow> string \<Rightarrow> time \<times> string" where
  "ListTargets_cursor lib token =
     (if token \<noteq> [] then
        (case DecodeString lib token of
           Some decoded \<Rightarrow>
             (case Cut decoded ''|'' of
                (part0, part1, found) \<Rightarrow>
                  (if found then
                     (case timeParse lib part0 of
                        Some t \<Rightarrow> (t, part1)
                      | None \<Rightarrow> (zeroTime, []))
                   else (zeroTime, [])))
         | None \<Rightarrow> (zeroTime, []))
      else (zeroTime, []))"

definition ListTargets_params :: "codecs \<Rightarrow> (string \<Rightarrow> string) \<Rightarrow> ListTargetsParams" where
  "ListTargets_params lib q =
     \<lparr>p_Host = ToLower (TrimSpace (q ''host'')),
      p_AfterTime = fst (ListTargets_cursor lib (q ''page_token'')),
      p_AfterID = snd (ListTargets_cursor lib (q ''page_token'')),
      p_Limit = ListTargets_limit (q ''limit'')\<rparr>"

text \<open>\<open>ListTargets\<close>: \<open>q\<close> is \<open>r.URL.Query().Get\<close>. The times of the model are UTC, so
  \<open>last.CreatedAt.UTC()\<close> is \<open>last.CreatedAt\<close>.\<close>

definition Handlers_ListTargets ::
  "codecs \<Rightarrow> (ListTargetsParams \<Rightarrow> Target list \<times> error option) \<Rightarrow> (string \<Rightarrow> string) \<Rightarrow> response" where
  "Handlers_ListTargets lib store_ListTargets q =
     (let params = ListTargets_params lib q
      in case store_ListTargets params of
           (items, err) \<Rightarrow>
             (if err \<noteq> None then ErrorResponse StatusInternalServerError ''internal server error''
              else TargetsResponse StatusOK items
                     (if int (length items) = p_Limit params
                      then EncodeToString lib
                             (Format_RFC3339Nano (CreatedAt (last items)) @ ''|'' @ ID (last items))
                      else [])))"

fun Split :: "string \<Rightarrow> char \<Rightarrow> string list" where
  "Split [] sep = [[]]"
| "Split (c # cs) sep =
     (if c = sep then [] # Split cs sep
      else (case Split cs sep of
              [] \<Rightarrow> [[c]]
            | p # ps \<Rightarrow> (c # p) # ps))"

definition ListCheckResults_since :: "codecs \<Rightarrow> string \<Rightarrow> time option" where
  "ListCheckResults_since lib s =
     (if s \<noteq> [] then
        (case timeParse lib s of
           Some t \<Rightarrow> Some t
         | None \<Rightarrow> None)
      else None)"

definition ListCheckResults_params ::
  "codecs \<Rightarrow> string \<Rightarrow> (string \<Rightarrow> string) \<Rightarrow> ListCheckResultsParams" where
  "ListCheckResults_params lib targetID q =
     \<lparr>q_TargetID = targetID,
      q_Since = ListCheckResults_since lib (q ''since''),
      q_Limit = ListCheckResults_limit (q ''limit'')\<rparr>"

text \<open>\<open>ListCheckResults\<close>: \<open>path\<close> is \<open>r.URL.Path\<close>. The times of the model are UTC,
  so \<open>t.UTC()\<close> is \<open>t\<close>.\<close>

definition Handlers_ListCheckResults ::
  "codecs \<Rightarrow> (string \<Rightarrow> Target option \<times> error option) \<Rightarrow>
   (ListCheckResultsParams \<Rightarrow> CheckResult list \<times> error option) \<Rightarrow>
   string \<Rightarrow> (string \<Rightarrow> string) \<Rightarrow> response" where
  "Handlers_ListCheckResults lib store_GetTargetByID store_ListCheckResultsByTargetID path q =
     (let parts = Split path (CHR ''/'')
      in if length parts < 5 then ErrorResponse StatusNotFound ''not found''
         else
           (let targetID = parts ! 3
            in case store_GetTargetByID targetID of
                 (t, Some e) \<Rightarrow>
                   (if e = ErrNotFound then ErrorResponse StatusNotFound ''target not found''
                    else ErrorResponse StatusInternalServerError ''internal server error'')
               | (t, None) \<Rightarrow>
                   (case store_ListCheckResultsByTargetID (ListCheckResults_params lib targetID q) of
                      (results, err) \<Rightarrow>
                        (if err \<noteq> None
                         then ErrorResponse StatusInternalServerError ''internal server error''
                         else ResultsResponse StatusOK results))))"

text \<open>A concrete instance of the codecs, to run the handlers on examples: the identity
  stands in for base64, and the times are parsed by \<open>Parse_RFC3339Nano\<close>.\<close>

definition plainCodecs :: codecs where
  "plainCodecs = \<lparr>DecodeString = Some, EncodeToString = (\<lambda>s. s), timeParse = Parse_RFC3339Nano\<rparr>"

section \<open>Sample data\<close>

text \<open>Concrete times and targets on which the theorems below are run. \<open>noon\<close> falls
  on a whole second; \<open>noonAndHalf\<close> is half a second later.\<close>

definition noon :: time where
  "noon = \<lparr>Year = 2024, Month = 1, Day = 1, Hour = 12, Minute = 0, Second = 0, Nanosecond = 0\<rparr>"

definition noonAndHalf :: time where
  "noonAndHalf =
     \<lparr>Year = 2024, Month = 1, Day = 1, Hour = 12, Minute = 0, Second = 0, Nanosecond = 500000000\<rparr>"

definition targetA :: Target where
  "targetA =
     \<lparr>ID = ''t_a'', URL = ''http://a.example/'', CanonicalURL = ''http://a.example/'',
      Host = ''a.example'', CreatedAt = noon\<rparr>"

definition targetA2 :: Target where
  "targetA2 =
     \<lparr>ID = ''t_a2'', URL = ''HTTP://A.EXAMPLE/'', CanonicalURL = ''http://a.example/'',
      Host = ''a.example'', CreatedAt = noonAndHalf\<rparr>"

definition targetB :: Target where
  "targetB =
     \<lparr>ID = ''t_b'', URL = ''http://b.example/'', CanonicalURL = ''http://b.example/'',
      Host = ''b.example'', CreatedAt = noonAndHalf\<rparr>"

text \<open>Three networks: per attempt, when it starts and how it ends.\<close>

definition flakyNetwork :: "nat \<Rightarrow> attempt" where
  "flakyNetwork k =
     (if k = 1 then \<lparr>at_start = noon, at_outcome = Response 500 (12 * millisecond)\<rparr>
      else if k = 2 then \<lparr>at_start = noon, at_outcome = DoError ''connection reset'' (3 * millisecond)\<rparr>
      else \<lparr>at_start = noonAndHalf, at_outcome = Response 200 (20 * millisecond)\<rparr>)"

definition serverErrorThenTimeouts :: "nat \<Rightarrow> attempt" where
  "serverErrorThenTimeouts k =
     (if k = 1 then \<lparr>at_start = noon, at_outcome = Response 503 (12 * millisecond)\<rparr>
      else \<lparr>at_start = noonAndHalf,
            at_outcome = DoError ''context deadline exceeded'' (5000 * millisecond)\<rparr>)"

definition timeoutThenOK :: "nat \<Rightarrow> attempt" where
  "timeoutThenOK k =
     (if k = 1 then \<lparr>at_start = noon,
                      at_outcome = DoError ''context deadline exceeded'' (5000 * millisecond)\<rparr>
      else \<lparr>at_start = noonAndHalf, at_outcome = Response 200 (20 * millisecond)\<rparr>)"

text \<open>Two requests \<open>POST /v1/targets\<close> with the same body and the same
  \<open>Idempotency-Key\<close>, served one after the other on an empty SQLite store.\<close>

definition firstRequest :: "response \<times> db" where
  "firstRequest =
     Handlers_CreateTarget (CreateTarget noon) ''t_1'' noon (Some ''https://a.com'') ''k1'' emptyDB"

definition secondRequest :: "response \<times> db" where
  "secondRequest =
     Handlers_CreateTarget (CreateTarget noonAndHalf) ''t_2'' noonAndHalf (Some ''https://a.com'') ''k1''
       (snd firstRequest)"

text \<open>A store with two targets: \<open>targetA\<close>, created at noon, and \<open>targetB\<close>, created
  half a second later.\<close>

definition twoTargets :: db where
  "twoTargets =
     snd (CreateTarget noonAndHalf targetB None (snd (CreateTarget noon targetA None emptyDB)))"

text \<open>A pool in which worker 0 probes \<open>targetA\<close> and worker 1 probes \<open>targetB\<close>.\<close>

definition twoInFlight :: pool where
  "twoInFlight =
     \<lparr>limiter = \<lparr>hosts = {''a.example'', ''b.example''}\<rparr>,
      workers = (\<lambda>w. if w = 0 then Probing targetA else if w = 1 then Probing targetB else Idle),
      written = []\<rparr>"

text \<open>A query whose \<open>limit\<close>, \<open>page_token\<close> and \<open>since\<close> are all malformed.\<close>

definition badQuery :: "string \<Rightarrow> string" where
  "badQuery k =
     (if k = ''limit'' then ''abc''
      else if k = ''page_token'' then ''!!!''
      else if k = ''since'' then ''yesterday''
      else [])"

section \<open>Vocabulary of the claims\<close>

text \<open>An idempotency key is recorded when \<open>idempotency_keys\<close> has a row for it.\<close>

definition keyRecorded :: "db \<Rightarrow> string \<Rightarrow> bool" where
  "keyRecorded d k = list_ex (\<lambda>r. k_key r = k) (idempotency_keys d)"

text \<open>The retryable outcomes, in the spec's words: a transport error, or a status code
  from 500 to 599.\<close>

definition retryable :: "outcome \<Rightarrow> bool" where
  "retryable out =
     (case out of
        NewRequestError m \<Rightarrow> False
      | DoError m lat \<Rightarrow> True
      | Response code lat \<Rightarrow> 500 \<le> code \<and> code \<le> 599)"

text \<open>The variables of \<open>performCheck\<close> after one attempt, before any sleep.\<close>

definition afterAttempt :: "attempt \<Rightarrow> probe_state \<Rightarrow> probe_state" where
  "afterAttempt a st = fst (loopBody a st)\<lparr>backoff := backoff st, slept := slept st\<rparr>"

text \<open>The invariant of the pool: the host of every probe in flight is in the limiter's
  set, and no two workers have probes in flight for the same host.\<close>

definition pool_inv :: "pool \<Rightarrow> bool" where
  "pool_inv p =
     ((\<forall>w t. inFlight (workers p w) = Some t \<longrightarrow> Host t \<in> hosts (limiter p))
      \<and> (\<forall>w1 w2 t1 t2. inFlight (workers p w1) = Some t1 \<and> inFlight (workers p w2) = Some t2
            \<and> Host t1 = Host t2 \<longrightarrow> w1 = w2))"

text \<open>A \<open>limit\<close> that is not an integer, or is one outside \<open>[1, hi]\<close>; a \<open>page_token\<close>
  that is not valid base64url, or whose decoding has no \<open>|\<close> or no parsable time
  before it.\<close>

definition limitUnusable :: "int \<Rightarrow> string \<Rightarrow> bool" where
  "limitUnusable hi l = (case Atoi l of None \<Rightarrow> True | Some v \<Rightarrow> v < 1 \<or> hi < v)"

definition tokenUnusable :: "codecs \<Rightarrow> string \<Rightarrow> bool" where
  "tokenUnusable lib token =
     (case DecodeString lib token of
        None \<Rightarrow> True
      | Some decoded \<Rightarrow> \<not> Contains decoded ''|'' \<or> timeParse lib (fst (Cut decoded ''|'')) = None)"

section \<open>The spec's reading of the limits\<close>

text \<open>The spec says that a supplied limit is clamped to a range; this is clamping, in
  the spec's words, to compare the handlers with.\<close>

definition clamp :: "int \<Rightarrow> int \<Rightarrow> int \<Rightarrow> int" where
  "clamp lo hi v = max lo (min hi v)"

section \<open>Properties\<close>

subsection \<open>Evaluation lemmas\<close>

lemma Atoi_501: "Atoi ''501'' = Some 501"
  by (simp add: Atoi_def isDigit_def byte_def digitsValue_def)

lemma Atoi_1001: "Atoi ''1001'' = Some 1001"
  by (simp add: Atoi_def isDigit_def byte_def digitsValue_def)

lemma Atoi_0: "Atoi ''0'' = Some 0"
  by (simp add: Atoi_def isDigit_def byte_def digitsValue_def)

lemma Atoi_17: "Atoi ''17'' = Some 17"
  by (simp add: Atoi_def isDigit_def byte_def digitsValue_def)

subsection \<open>C6: the effective limits\<close>

text \<open>
  C6, as stated, fails: the handlers do not clamp. A limit of 501 on
  \<open>GET /v1/targets\<close> gives 50, where clamping to [1, 500] gives 500; a limit of 0 gives
  50, where clamping gives 1; and likewise 1001 and 0 on the results endpoint give
  100.
\<close>

theorem C6_clamp_counterexample:
  "Atoi ''501'' = Some 501 \<and> ListTargets_limit ''501'' = 50
   \<and> ListTargets_limit ''501'' \<noteq> clamp 1 500 501
   \<and> Atoi ''0'' = Some 0 \<and> ListTargets_limit ''0'' = 50
   \<and> ListTargets_limit ''0'' \<noteq> clamp 1 500 0
   \<and> Atoi ''1001'' = Some 1001 \<and> ListCheckResults_limit ''1001'' = 100
   \<and> ListCheckResults_limit ''1001'' \<noteq> clamp 1 1000 1001
   \<and> ListCheckResults_limit ''0'' = 100
   \<and> ListCheckResults_limit ''0'' \<noteq> clamp 1 1000 0"
  by (simp add: ListTargets_limit_def ListCheckResults_limit_def clamp_def
      Atoi_501 Atoi_1001 Atoi_0)

text \<open>
  C6, amended: on \<open>GET /v1/targets\<close> the limit handed to the store is the supplied
  limit when that is an integer in [1, 500], and the default 50 in every other case
  (absent, not an integer, below 1, above 500); on
  \<open>GET /v1/targets/{id}/results\<close> it is the supplied limit when that is an integer in
  [1, 1000], and the default 100 in every other case. Either way it lies in the range.
\<close>

theorem C6_effective_limit:
  "(Atoi (q ''limit'') = Some v \<and> 1 \<le> v \<and> v \<le> 500 \<longrightarrow> p_Limit (ListTargets_params lib q) = v)
   \<and> (\<not> (\<exists>w. Atoi (q ''limit'') = Some w \<and> 1 \<le> w \<and> w \<le> 500) \<longrightarrow>
        p_Limit (ListTargets_params lib q) = 50)
   \<and> 1 \<le> p_Limit (ListTargets_params lib q) \<and> p_Limit (ListTargets_params lib q) \<le> 500
   \<and> (Atoi (q ''limit'') = Some v \<and> 1 \<le> v \<and> v \<le> 1000 \<longrightarrow>
        q_Limit (ListCheckResults_params lib i q) = v)
   \<and> (\<not> (\<exists>w. Atoi (q ''limit'') = Some w \<and> 1 \<le> w \<and> w \<le> 1000) \<longrightarrow>
        q_Limit (ListCheckResults_params lib i q) = 100)
   \<and> 1 \<le> q_Limit (ListCheckResults_params lib i q)
   \<and> q_Limit (ListCheckResults_params lib i q) \<le> 1000"
proof -
  have empty: "Atoi [] = None"
    by (simp add: Atoi_def)
  show ?thesis
    by (cases "q ''limit'' = []")
       (auto simp: ListTargets_params_def ListCheckResults_params_def ListTargets_limit_def
          ListCheckResults_limit_def empty split: option.splits)
qed

theorem C6_effective_limit_witness:
  "Atoi ''17'' = Some 17
   \<and> p_Limit (ListTargets_params plainCodecs (\<lambda>k. if k = ''limit'' then ''17'' else [])) = 17
   \<and> q_Limit (ListCheckResults_params plainCodecs ''t_1''
               (\<lambda>k. if k = ''limit'' then ''17'' else [])) = 17
   \<and> \<not> (\<exists>w. Atoi ''501'' = Some w \<and> 1 \<le> w \<and> w \<le> 500)
   \<and> p_Limit (ListTargets_params plainCodecs (\<lambda>k. if k = ''limit'' then ''501'' else [])) = 50"
proof -
  let ?q = "\<lambda>k. if k = ''limit'' then ''17'' else []"
  let ?r = "\<lambda>k. if k = ''limit'' then ''501'' else []"
  have a: "Atoi (?q ''limit'') = Some 17 \<and> (1::int) \<le> 17 \<and> (17::int) \<le> 500"
    by (simp add: Atoi_17)
  have b: "Atoi (?q ''limit'') = Some 17 \<and> (1::int) \<le> 17 \<and> (17::int) \<le> 1000"
    by (simp add: Atoi_17)
  have c: "\<not> (\<exists>w. Atoi (?r ''limit'') = Some w \<and> 1 \<le> w \<and> w \<le> 500)"
    by (simp add: Atoi_501)
  from C6_effective_limit [of ?q 17 plainCodecs "''t_1''"] a b
  have "p_Limit (ListTargets_params plainCodecs ?q) = 17"
    and "q_Limit (ListCheckResults_params plainCodecs ''t_1'' ?q) = 17"
    by blast+
  moreover from C6_effective_limit [of ?r 0 plainCodecs "''t_1''"] c
  have "p_Limit (ListTargets_params plainCodecs ?r) = 50"
    by blast
  ultimately show ?thesis
    using c by (simp add: Atoi_17 Atoi_501)
qed

subsection \<open>C3: a second registration of the same canonical URL\<close>

lemma find_snoc:
  "find P (xs @ [x]) =
     (case find P xs of Some y \<Rightarrow> Some y | None \<Rightarrow> (if P x then Some x else None))"
  by (induction xs) auto

lemma find_None_list_ex: "(find P xs = None) = (\<not> list_ex P xs)"
  by (induction xs) auto

text \<open>What \<open>CreateTarget\<close> does when its key, if any, is not recorded.\<close>

lemma CreateTarget_fresh_key:
  assumes "\<forall>k. key = Some k \<longrightarrow> \<not> keyRecorded d k"
  shows "CreateTarget now t key d =
     (case find (\<lambda>r. r_canonical_url r = CanonicalURL t) (targets d) of
        Some r \<Rightarrow> ((Some (scanTarget r), Some ErrDuplicateKey), d)
      | None \<Rightarrow>
          (if list_ex (\<lambda>r. r_id r = ID t) (targets d)
           then ((None, Some (StoreError ''failed to insert target'')), d)
           else
             (case key of
                None \<Rightarrow> ((Some t, None), d\<lparr>targets := targets d @ [targetRow t]\<rparr>)
              | Some k \<Rightarrow>
                  ((Some t, None),
                   d\<lparr>targets := targets d @ [targetRow t],
                     idempotency_keys := idempotency_keys d @
                       [\<lparr>k_key = k, k_target_id = ID t,
                         k_created_at = Format_RFC3339Nano now\<rparr>]\<rparr>))))"
proof (cases key)
  case None
  then show ?thesis
    by (simp add: CreateTarget_def Let_def split: option.splits)
next
  case (Some k)
  with assms have nk: "\<not> list_ex (\<lambda>r. k_key r = k) (idempotency_keys d)"
    by (simp add: keyRecorded_def)
  then have "find (\<lambda>r. k_key r = k) (idempotency_keys d) = None"
    by (simp add: find_None_list_ex)
  with Some nk show ?thesis
    by (simp add: CreateTarget_def Let_def split: option.splits)
qed

text \<open>
  C3. Take two calls of \<open>CreateTarget\<close>, one after the other, neither with an
  idempotency key that is already recorded when it runs, for targets with the same
  canonical URL, the first of which returns a target. Then the second call returns
  \<open>ErrDuplicateKey\<close> (status Duplicate) together with a target read from a row that
  was already in the table, with the id that the first call returned; and it leaves
  the database as it found it: no target row and no idempotency record is written,
  whatever key the second call brought.
\<close>

theorem C3_same_canonical_url_is_duplicate:
  assumes first: "CreateTarget now1 t1 k1 d0 = ((Some r1, e1), d1)"
    and fresh1: "\<forall>k. k1 = Some k \<longrightarrow> \<not> keyRecorded d0 k"
    and same: "CanonicalURL t2 = CanonicalURL t1"
    and fresh2: "\<forall>k. k2 = Some k \<longrightarrow> \<not> keyRecorded d1 k"
  shows "\<exists>row. find (\<lambda>r. r_canonical_url r = CanonicalURL t2) (targets d1) = Some row
           \<and> CreateTarget now2 t2 k2 d1 = ((Some (scanTarget row), Some ErrDuplicateKey), d1)
           \<and> ID (scanTarget row) = ID r1"
proof (cases "find (\<lambda>r. r_canonical_url r = CanonicalURL t1) (targets d0)")
  case (Some r)
  with first fresh1 have "r1 = scanTarget r" "d1 = d0"
    by (auto simp: CreateTarget_fresh_key)
  then show ?thesis
    using Some same fresh2 by (simp add: CreateTarget_fresh_key)
next
  case None
  with first fresh1 have r1: "r1 = t1"
    and tg: "targets d1 = targets d0 @ [targetRow t1]"
    by (auto simp: CreateTarget_fresh_key split: if_splits option.splits)
  have "find (\<lambda>r. r_canonical_url r = CanonicalURL t2) (targets d1) = Some (targetRow t1)"
    using None same by (simp add: tg find_snoc targetRow_def)
  then show ?thesis
    using fresh2 r1 by (simp add: CreateTarget_fresh_key scanTarget_def targetRow_def)
qed

theorem C3_same_canonical_url_is_duplicate_witness:
  "CreateTarget noon targetA None emptyDB
     = ((Some targetA, None), emptyDB\<lparr>targets := [targetRow targetA]\<rparr>)
   \<and> CanonicalURL targetA2 = CanonicalURL targetA
   \<and> \<not> keyRecorded (emptyDB\<lparr>targets := [targetRow targetA]\<rparr>) ''k2''
   \<and> CreateTarget noonAndHalf targetA2 (Some ''k2'') (emptyDB\<lparr>targets := [targetRow targetA]\<rparr>)
       = ((Some (scanTarget (targetRow targetA)), Some ErrDuplicateKey),
          emptyDB\<lparr>targets := [targetRow targetA]\<rparr>)
   \<and> ID (scanTarget (targetRow targetA)) = ''t_a''"
proof -
  let ?d1 = "emptyDB\<lparr>targets := [targetRow targetA]\<rparr>"
  have first: "CreateTarget noon targetA None emptyDB = ((Some targetA, None), ?d1)"
    by (simp add: CreateTarget_def emptyDB_def)
  have fresh1: "\<forall>k. (None :: string option) = Some k \<longrightarrow> \<not> keyRecorded emptyDB k"
    by simp
  have same: "CanonicalURL targetA2 = CanonicalURL targetA"
    by (simp add: targetA_def targetA2_def)
  have nk: "\<not> keyRecorded ?d1 ''k2''"
    by (simp add: keyRecorded_def emptyDB_def)
  then have fresh2: "\<forall>k. Some ''k2'' = Some k \<longrightarrow> \<not> keyRecorded ?d1 k"
    by simp
  from C3_same_canonical_url_is_duplicate [OF first fresh1 same fresh2, of noonAndHalf]
  obtain row where "find (\<lambda>r. r_canonical_url r = CanonicalURL targetA2) (targets ?d1) = Some row"
    and "CreateTarget noonAndHalf targetA2 (Some ''k2'') ?d1
           = ((Some (scanTarget row), Some ErrDuplicateKey), ?d1)"
    by blast
  moreover from this(1) have "row = targetRow targetA"
    by (simp add: emptyDB_def split: if_splits)
  ultimately show ?thesis
    using first same nk by (simp add: scanTarget_def targetRow_def targetA_def)
qed

subsection \<open>C4: attempts, retries and back-off\<close>

lemma loopBody_retryable:
  "loopBody a st =
     (if attempts st + 1 < maxAttempts \<and> retryable (at_outcome a)
      then (afterAttempt a st\<lparr>slept := slept st @ [backoff st], backoff := backoff st * 2\<rparr>, True)
      else (afterAttempt a st, False))"
  by (cases "at_outcome a")
     (auto simp: loopBody_def retryTail_def retry_def retryable_def afterAttempt_def Let_def)

lemma afterAttempt_simps [simp]:
  "attempts (afterAttempt a st) = attempts st + 1"
  "slept (afterAttempt a st) = slept st"
  "backoff (afterAttempt a st) = backoff st"
  by (cases "at_outcome a"; simp add: loopBody_def retryTail_def afterAttempt_def Let_def)+

lemma loop_stop:
  "loopBody (env (attempts st + 1)) st = (st', False) \<Longrightarrow> performCheck_loop env st = st'"
  by (subst performCheck_loop.simps) simp

lemma loop_continue:
  "loopBody (env (attempts st + 1)) st = (st', True) \<Longrightarrow>
   performCheck_loop env st = performCheck_loop env st'"
  by (subst performCheck_loop.simps) simp

lemma loop_unfold:
  "performCheck_loop env st =
     (if attempts st + 1 < maxAttempts \<and> retryable (at_outcome (env (attempts st + 1)))
      then performCheck_loop env
             (afterAttempt (env (attempts st + 1)) st
                \<lparr>slept := slept st @ [backoff st], backoff := backoff st * 2\<rparr>)
      else afterAttempt (env (attempts st + 1)) st)"
  by (subst performCheck_loop.simps) (simp add: loopBody_retryable)

text \<open>The final state of the loop, by the outcomes of the first two attempts.\<close>

lemma loop_three_attempts:
  "performCheck_loop env initState =
     (let s1 = afterAttempt (env 1) initState;
          s2 = afterAttempt (env 2) (s1\<lparr>slept := [200 * millisecond], backoff := 400 * millisecond\<rparr>);
          s3 = afterAttempt (env 3)
                 (s2\<lparr>slept := [200 * millisecond, 400 * millisecond], backoff := 800 * millisecond\<rparr>)
      in if retryable (at_outcome (env 1))
         then (if retryable (at_outcome (env 2)) then s3 else s2)
         else s1)"
proof -
  let ?s1 = "afterAttempt (env 1) initState"
  let ?s1' = "?s1\<lparr>slept := [200 * millisecond], backoff := 400 * millisecond\<rparr>"
  let ?s2 = "afterAttempt (env 2) ?s1'"
  let ?s2' = "?s2\<lparr>slept := [200 * millisecond, 400 * millisecond], backoff := 800 * millisecond\<rparr>"
  let ?s3 = "afterAttempt (env 3) ?s2'"
  have a0: "attempts initState = 0" "slept initState = []" "backoff initState = 200 * millisecond"
    by (simp_all add: initState_def)
  have u1: "performCheck_loop env initState =
     (if retryable (at_outcome (env 1)) then performCheck_loop env ?s1' else ?s1)"
    by (subst loop_unfold) (simp add: a0 maxAttempts_def)
  have u2: "performCheck_loop env ?s1' =
     (if retryable (at_outcome (env 2)) then performCheck_loop env ?s2' else ?s2)"
    by (subst loop_unfold) (simp add: a0 maxAttempts_def numeral_2_eq_2)
  have u3: "performCheck_loop env ?s2' = ?s3"
    by (subst loop_unfold) (simp add: a0 maxAttempts_def numeral_2_eq_2 numeral_3_eq_3)
  show ?thesis
    unfolding u1 u2 u3 by (simp add: Let_def)
qed

lemma loop_from_start:
  fixes env
  defines "st \<equiv> performCheck_loop env initState"
  shows "(\<not> retryable (at_outcome (env 1)) \<and> attempts st = 1 \<and> slept st = [])
       \<or> (retryable (at_outcome (env 1)) \<and> \<not> retryable (at_outcome (env 2)) \<and> attempts st = 2
           \<and> slept st = [200 * millisecond])
       \<or> (retryable (at_outcome (env 1)) \<and> retryable (at_outcome (env 2)) \<and> attempts st = 3
           \<and> slept st = [200 * millisecond, 400 * millisecond])"
  unfolding st_def loop_three_attempts
  by (simp add: Let_def initState_def)

lemma performCheck_acquires:
  assumes "Host target \<notin> hosts hl"
  shows "performCheck env target hl =
     (hl, \<lparr>acquired = True, attempts_made = attempts (performCheck_loop env initState),
           sleeps = slept (performCheck_loop env initState),
           saved = [probeResult target (performCheck_loop env initState)]\<rparr>)"
  using assms by (simp add: performCheck_def Acquire_def Release_def Let_def)

text \<open>
  C4. A probe that acquires its host makes at least one and at most three attempts. For
  every attempt \<open>k\<close> that it makes, a further attempt follows exactly when \<open>k\<close> is
  below 3 and the outcome of attempt \<open>k\<close> is retryable (a transport error, or a status
  code from 500 to 599). The sleeps before the retries are 200ms, then 400ms: the
  \<open>i\<close>-th sleep (from 0) lasts 200ms times 2 to the \<open>i\<close>. And the probe hands exactly
  one result to \<open>CreateCheckResult\<close>, however many attempts it made.
\<close>

theorem C4_retry_policy:
  assumes "Host target \<notin> hosts hl"
  shows "acquired (snd (performCheck env target hl))
     \<and> 1 \<le> attempts_made (snd (performCheck env target hl))
     \<and> attempts_made (snd (performCheck env target hl)) \<le> 3
     \<and> (\<forall>k. 1 \<le> k \<and> k \<le> attempts_made (snd (performCheck env target hl)) \<longrightarrow>
           (k < attempts_made (snd (performCheck env target hl)))
             = (k < 3 \<and> retryable (at_outcome (env k))))
     \<and> sleeps (snd (performCheck env target hl))
         = map (\<lambda>i. 200 * millisecond * 2 ^ i) [0..<attempts_made (snd (performCheck env target hl)) - 1]
     \<and> length (saved (snd (performCheck env target hl))) = 1"
proof -
  let ?st = "performCheck_loop env initState"
  from loop_from_start [of env]
  consider (one) "\<not> retryable (at_outcome (env 1))" "attempts ?st = 1" "slept ?st = []"
    | (two) "retryable (at_outcome (env 1))" "\<not> retryable (at_outcome (env 2))"
        "attempts ?st = 2" "slept ?st = [200 * millisecond]"
    | (three) "retryable (at_outcome (env 1))" "retryable (at_outcome (env 2))"
        "attempts ?st = 3" "slept ?st = [200 * millisecond, 400 * millisecond]"
    by blast
  then show ?thesis
  proof cases
    case one
    have "(k < 1) = (k < 3 \<and> retryable (at_outcome (env k)))" if "1 \<le> k \<and> k \<le> 1" for k :: nat
    proof -
      from that have "k = 1" by arith
      with one show ?thesis by simp
    qed
    with one show ?thesis
      by (simp add: performCheck_acquires [OF assms])
  next
    case two
    have "(k < 2) = (k < 3 \<and> retryable (at_outcome (env k)))" if "1 \<le> k \<and> k \<le> 2" for k :: nat
    proof -
      from that have "k = 1 \<or> k = 2" by arith
      with two show ?thesis by auto
    qed
    moreover have "[0..<Suc 0] = [0]" by simp
    ultimately show ?thesis
      using two by (simp add: performCheck_acquires [OF assms])
  next
    case three
    have "(k < 3) = (k < 3 \<and> retryable (at_outcome (env k)))" if "1 \<le> k \<and> k \<le> 3" for k :: nat
    proof -
      from that have "k = 1 \<or> k = 2 \<or> k = 3" by arith
      with three show ?thesis by auto
    qed
    moreover have "[0..<2] = [0, Suc 0]" by (simp add: upt_rec)
    ultimately show ?thesis
      using three by (simp add: performCheck_acquires [OF assms])
  qed
qed

theorem C4_retry_policy_witness:
  "Host targetA \<notin> hosts NewHostLimiter
   \<and> attempts_made (snd (performCheck flakyNetwork targetA NewHostLimiter)) = 3
   \<and> sleeps (snd (performCheck flakyNetwork targetA NewHostLimiter))
       = [200 * millisecond, 400 * millisecond]
   \<and> length (saved (snd (performCheck flakyNetwork targetA NewHostLimiter))) = 1"
proof -
  have h: "Host targetA \<notin> hosts NewHostLimiter"
    by (simp add: NewHostLimiter_def)
  have r: "retryable (at_outcome (flakyNetwork 1))" "retryable (at_outcome (flakyNetwork 2))"
    by (simp_all add: flakyNetwork_def retryable_def)
  let ?n = "attempts_made (snd (performCheck flakyNetwork targetA NewHostLimiter))"
  from C4_retry_policy [OF h, of flakyNetwork]
  have n: "1 \<le> ?n" "?n \<le> 3"
    and iff: "\<And>k. 1 \<le> k \<and> k \<le> ?n \<Longrightarrow> (k < ?n) = (k < 3 \<and> retryable (at_outcome (flakyNetwork k)))"
    and sl: "sleeps (snd (performCheck flakyNetwork targetA NewHostLimiter))
         = map (\<lambda>i. 200 * millisecond * 2 ^ i) [0..<?n - 1]"
    and one: "length (saved (snd (performCheck flakyNetwork targetA NewHostLimiter))) = 1"
    by blast+
  have "?n \<noteq> 1" using iff [of 1] r by auto
  moreover have "?n \<noteq> 2" using iff [of 2] r by auto
  ultimately have "?n = 3" using n by arith
  moreover have "[0..<2] = [0, Suc 0]" by (simp add: upt_rec)
  ultimately show ?thesis
    using h sl one by simp
qed

subsection \<open>Evaluating times\<close>

lemma Format_noon: "Format_RFC3339Nano noon = ''2024-01-01T12:00:00Z''"
  by (simp add: noon_def Format_RFC3339Nano_def formatFrac_def zeroPad_def itoa.simps digitChar_def)

lemma Format_noonAndHalf: "Format_RFC3339Nano noonAndHalf = ''2024-01-01T12:00:00.5Z''"
  by (simp add: noonAndHalf_def Format_RFC3339Nano_def formatFrac_def trimZeros_def zeroPad_def
      itoa.simps digitChar_def)

lemma Parse_noon: "Parse_RFC3339Nano ''2024-01-01T12:00:00Z'' = Some noon"
  by (simp add: noon_def Parse_RFC3339Nano_def parseFrac_def isDigit_def byte_def digitsValue_def
      validTime_def daysIn_def isLeap_def Let_def)

lemma Parse_noonAndHalf: "Parse_RFC3339Nano ''2024-01-01T12:00:00.5Z'' = Some noonAndHalf"
  by (simp add: noonAndHalf_def Parse_RFC3339Nano_def parseFrac_def isDigit_def byte_def
      digitsValue_def validTime_def daysIn_def isLeap_def Let_def)

subsection \<open>C1: status code and error of a saved result\<close>

lemma Milliseconds_ms: "0 \<le> n \<Longrightarrow> Milliseconds (n * millisecond) = n"
  by (simp add: Milliseconds_def millisecond_def)

text \<open>
  C1 fails on the code: \<open>statusCode\<close> and \<open>errMsg\<close> are declared before the loop and
  never cleared, so a value set by an earlier attempt survives a later attempt of the
  other kind. A probe whose first attempt receives 503 and whose later attempts time
  out saves a result with \<open>status_code = 503\<close> and an error; a probe whose first
  attempt times out and whose second receives 200 saves \<open>status_code = 200\<close> and an
  error. The SQLite row of the first has both columns non-null.
\<close>

theorem C1_status_code_and_error_both_set:
  "saved (snd (performCheck serverErrorThenTimeouts targetA NewHostLimiter))
     = [\<lparr>CR_ID = [], TargetID = ''t_a'', CheckedAt = noonAndHalf, StatusCode = Some 503,
         LatencyMS = 5000, Error = Some ''context deadline exceeded''\<rparr>]
   \<and> saved (snd (performCheck timeoutThenOK targetA NewHostLimiter))
     = [\<lparr>CR_ID = [], TargetID = ''t_a'', CheckedAt = noonAndHalf, StatusCode = Some 200,
         LatencyMS = 20, Error = Some ''context deadline exceeded''\<rparr>]
   \<and> map (\<lambda>r. (c_status_code r, c_error r))
       (check_results (snd (CreateCheckResult ''cr_1''
          (hd (saved (snd (performCheck serverErrorThenTimeouts targetA NewHostLimiter))))
          (snd (CreateTarget noon targetA None emptyDB)))))
     = [(Some 503, Some ''context deadline exceeded'')]"
proof -
  have h: "Host targetA \<notin> hosts NewHostLimiter"
    by (simp add: NewHostLimiter_def)
  have l1: "performCheck_loop serverErrorThenTimeouts initState =
      \<lparr>attempts = 3, backoff = 800 * millisecond, statusCode = Some 503,
       errMsg = Some ''context deadline exceeded'', startTime = noonAndHalf,
       latency = 5000 * millisecond, slept = [200 * millisecond, 400 * millisecond]\<rparr>"
    by (subst loop_three_attempts) (simp add: serverErrorThenTimeouts_def retryable_def afterAttempt_def
        loopBody_def retryTail_def retry_def initState_def maxAttempts_def Let_def)
  have l2: "performCheck_loop timeoutThenOK initState =
      \<lparr>attempts = 2, backoff = 400 * millisecond, statusCode = Some 200,
       errMsg = Some ''context deadline exceeded'', startTime = noonAndHalf,
       latency = 20 * millisecond, slept = [200 * millisecond]\<rparr>"
    by (subst loop_three_attempts) (simp add: timeoutThenOK_def retryable_def afterAttempt_def
        loopBody_def retryTail_def retry_def initState_def maxAttempts_def Let_def)
  have d: "CreateTarget noon targetA None emptyDB
     = ((Some targetA, None), emptyDB\<lparr>targets := [targetRow targetA]\<rparr>)"
    by (simp add: CreateTarget_def emptyDB_def)
  show ?thesis
    unfolding performCheck_acquires [OF h] l1 l2 d
    by (simp add: probeResult_def Milliseconds_ms CreateCheckResult_def emptyDB_def
        targetRow_def targetA_def)
qed


subsection \<open>C2: replay by idempotency key\<close>

lemma Canonicalize_a_com: "Canonicalize ''https://a.com'' = Inr ''https://a.com''"
  by code_simp

lemma Hostname_a_com:
  "map_option Hostname (Parse ''https://a.com'') = Some ''a.com''"
  by code_simp

lemma handler_a_com:
  "Handlers_CreateTarget store newID now (Some ''https://a.com'') ''k1'' st =
     (case store \<lparr>ID = newID, URL = ''https://a.com'', CanonicalURL = ''https://a.com'',
                   Host = ''a.com'', CreatedAt = now\<rparr> (Some ''k1'') st of
        ((createdTarget, err), st') \<Rightarrow>
          (if err \<noteq> None \<and> err \<noteq> Some ErrDuplicateKey
           then (ErrorResponse StatusInternalServerError ''internal server error'', st')
           else (TargetResponse (if err = Some ErrDuplicateKey then StatusOK else StatusCreated)
                   createdTarget, st')))"
proof -
  obtain u where u: "Parse ''https://a.com'' = Some u" "Hostname u = ''a.com''"
    using Hostname_a_com by (cases "Parse ''https://a.com''") auto
  show ?thesis
    by (simp add: Handlers_CreateTarget_def Canonicalize_a_com u Let_def)
qed

text \<open>
  C2 fails on the code: when the idempotency key is recorded, the SQLite store returns
  the result of \<open>getTargetByIDTx\<close>, whose error is nil, not \<open>ErrDuplicateKey\<close>; the
  handler then answers 201. Two requests with the key \<open>k1\<close> and the same URL both
  answer 201 with the target \<open>t_1\<close>; the second leaves the store unchanged.
\<close>

theorem C2_replay_by_key_answers_created:
  "firstRequest =
     (TargetResponse 201 (Some \<lparr>ID = ''t_1'', URL = ''https://a.com'', CanonicalURL = ''https://a.com'',
                                 Host = ''a.com'', CreatedAt = noon\<rparr>),
      \<lparr>targets = [\<lparr>r_id = ''t_1'', r_url = ''https://a.com'', r_canonical_url = ''https://a.com'',
                   r_host = ''a.com'', r_created_at = ''2024-01-01T12:00:00Z''\<rparr>],
       idempotency_keys = [\<lparr>k_key = ''k1'', k_target_id = ''t_1'',
                             k_created_at = ''2024-01-01T12:00:00Z''\<rparr>],
       check_results = []\<rparr>)
   \<and> secondRequest =
     (TargetResponse 201 (Some \<lparr>ID = ''t_1'', URL = ''https://a.com'', CanonicalURL = ''https://a.com'',
                                 Host = ''a.com'', CreatedAt = noon\<rparr>),
      snd firstRequest)"
proof -
  have f: "firstRequest =
     (TargetResponse 201 (Some \<lparr>ID = ''t_1'', URL = ''https://a.com'', CanonicalURL = ''https://a.com'',
                                 Host = ''a.com'', CreatedAt = noon\<rparr>),
      \<lparr>targets = [\<lparr>r_id = ''t_1'', r_url = ''https://a.com'', r_canonical_url = ''https://a.com'',
                   r_host = ''a.com'', r_created_at = ''2024-01-01T12:00:00Z''\<rparr>],
       idempotency_keys = [\<lparr>k_key = ''k1'', k_target_id = ''t_1'',
                             k_created_at = ''2024-01-01T12:00:00Z''\<rparr>],
       check_results = []\<rparr>)"
    unfolding firstRequest_def handler_a_com
    by (simp add: CreateTarget_def emptyDB_def targetRow_def Format_noon StatusCreated_def)
  show ?thesis
    unfolding secondRequest_def handler_a_com f
    by (simp add: CreateTarget_def getTargetByIDTx_def scanTarget_def Parse_noon StatusCreated_def)
qed

text \<open>The same at the store, for every database: a recorded key makes \<open>CreateTarget\<close>
  return what \<open>getTargetByIDTx\<close> returns, which is never \<open>ErrDuplicateKey\<close>, and the
  database as it was.\<close>

lemma CreateTarget_recorded_key:
  assumes "find (\<lambda>r. k_key r = k) (idempotency_keys d) = Some kr"
  shows "CreateTarget now t (Some k) d = (getTargetByIDTx d (k_target_id kr), d)"
    and "snd (getTargetByIDTx d (k_target_id kr)) \<noteq> Some ErrDuplicateKey"
  using assms by (simp_all add: CreateTarget_def getTargetByIDTx_def split: option.splits)

subsection \<open>C5: the order of listed targets\<close>

lemma twoTargets_rows:
  "twoTargets =
     \<lparr>targets =
        [\<lparr>r_id = ''t_a'', r_url = ''http://a.example/'', r_canonical_url = ''http://a.example/'',
          r_host = ''a.example'', r_created_at = ''2024-01-01T12:00:00Z''\<rparr>,
         \<lparr>r_id = ''t_b'', r_url = ''http://b.example/'', r_canonical_url = ''http://b.example/'',
          r_host = ''b.example'', r_created_at = ''2024-01-01T12:00:00.5Z''\<rparr>],
      idempotency_keys = [], check_results = []\<rparr>"
  by (simp add: twoTargets_def CreateTarget_def emptyDB_def targetRow_def targetA_def targetB_def
      Format_noon Format_noonAndHalf)

lemma half_before_whole: "str_less ''2024-01-01T12:00:00.5Z'' ''2024-01-01T12:00:00Z''"
  by (simp add: byte_def)

lemma whole_not_before_half: "\<not> str_less ''2024-01-01T12:00:00Z'' ''2024-01-01T12:00:00.5Z''"
  by (simp add: byte_def)

text \<open>
  C5 fails on the code: \<open>created_at\<close> is stored as RFC3339Nano text, which drops the
  fraction of a whole second, and SQLite compares the text byte by byte, so
  \<open>12:00:00.5Z\<close> sorts before \<open>12:00:00Z\<close>. With \<open>targetA\<close> created at noon and
  \<open>targetB\<close> half a second later, the list comes back as \<open>targetB\<close>, \<open>targetA\<close>:
  descending in \<open>created_at\<close>. And with the cursor (noon and a half, \<open>t_b\<close>) the
  store returns \<open>targetA\<close>, whose \<open>(created_at, id)\<close> is below the cursor.
\<close>

theorem C5_text_order_is_not_time_order:
  "ListTargets twoTargets \<lparr>p_Host = [], p_AfterTime = zeroTime, p_AfterID = [], p_Limit = 10\<rparr>
     = [targetB, targetA]
   \<and> Before (CreatedAt targetA) (CreatedAt targetB)
   \<and> ListTargets twoTargets
        \<lparr>p_Host = [], p_AfterTime = noonAndHalf, p_AfterID = ''t_b'', p_Limit = 10\<rparr>
     = [targetA]"
proof -
  have z: "IsZero zeroTime" "\<not> IsZero noonAndHalf"
    by (simp_all add: IsZero_def zeroTime_def noonAndHalf_def)
  have l1: "ListTargets twoTargets \<lparr>p_Host = [], p_AfterTime = zeroTime, p_AfterID = [], p_Limit = 10\<rparr>
     = [targetB, targetA]"
    unfolding twoTargets_rows
    by (simp add: ListTargets_def z orderByCreatedAtID_def rowLess_def rowKey_def sqlLimit_def
        byte_def scanTarget_def Parse_noon Parse_noonAndHalf
        targetA_def targetB_def)
  have l2: "ListTargets twoTargets
        \<lparr>p_Host = [], p_AfterTime = noonAndHalf, p_AfterID = ''t_b'', p_Limit = 10\<rparr>
     = [targetA]"
    unfolding twoTargets_rows
    by (simp add: ListTargets_def z Format_noonAndHalf orderByCreatedAtID_def rowLess_def rowKey_def
        sqlLimit_def byte_def scanTarget_def Parse_noon
        Parse_noonAndHalf targetA_def)
  have b: "Before (CreatedAt targetA) (CreatedAt targetB)"
    by (simp add: Before_def timeKey_def targetA_def targetB_def noon_def noonAndHalf_def)
  from l1 b l2 show ?thesis by simp
qed

subsection \<open>C7 and C8: the canonicalizer on IPv6 literals and on its own output\<close>

text \<open>
  C7 fails on the code for IPv6 literals: when the default port is present the host is
  replaced by \<open>Hostname()\<close>, which removes the square brackets together with the
  port. \<open>http://[::1]:80/path\<close> becomes \<open>http://::1/path\<close>, not
  \<open>http://[::1]/path\<close>. With a custom port, or with no port, the literal is kept.
\<close>

theorem C7_ipv6_brackets_are_stripped:
  "Canonicalize ''http://[::1]:80/path'' = Inr ''http://::1/path''
   \<and> Canonicalize ''https://[2001:db8::1]:443/'' = Inr ''https://2001:db8::1/''
   \<and> Canonicalize ''http://[::1]:8080/path'' = Inr ''http://[::1]:8080/path''
   \<and> Canonicalize ''http://[::1]/path'' = Inr ''http://[::1]/path''"
  by code_simp

text \<open>So the canonical form of \<open>http://[::1]:80/path\<close> is not that URL without its
  port.\<close>

theorem C7_ipv6_brackets_are_stripped_witness:
  "Canonicalize ''http://[::1]:80/path'' \<noteq> Inr ''http://[::1]/path''"
  using C7_ipv6_brackets_are_stripped by simp


text \<open>
  C8 fails on the code: only one trailing slash is removed, so the output for a path
  ending in two slashes still ends in a slash, and canonicalizing it again removes
  that one too. \<open>http://example.com/a//\<close> gives \<open>http://example.com/a/\<close>, which gives
  \<open>http://example.com/a\<close>. The bracket removal of C7 breaks idempotence as well:
  \<open>http://[::80]:80/\<close> gives \<open>http://::80/\<close>, which gives \<open>http://:/\<close>; and
  \<open>http://[::1%25eth0]:80/\<close> gives \<open>http://::1%25eth0/\<close>, on which
  \<open>Canonicalize\<close> fails.
\<close>

theorem C8_not_idempotent:
  "Canonicalize ''http://example.com/a//'' = Inr ''http://example.com/a/''
   \<and> Canonicalize ''http://example.com/a/'' = Inr ''http://example.com/a''
   \<and> Canonicalize ''http://[::80]:80/'' = Inr ''http://::80/''
   \<and> Canonicalize ''http://::80/'' = Inr ''http://:/''
   \<and> Canonicalize ''http://[::1%25eth0]:80/'' = Inr ''http://::1%25eth0/''
   \<and> Canonicalize ''http://::1%25eth0/'' = Inl ''failed to parse url''"
  by code_simp

text \<open>So some input is canonicalized to a string that \<open>Canonicalize\<close> does not map to
  itself.\<close>

theorem C8_not_idempotent_witness:
  "\<exists>u c. Canonicalize u = Inr c \<and> Canonicalize c \<noteq> Inr c"
proof -
  from C8_not_idempotent
  have "Canonicalize ''http://example.com/a//'' = Inr ''http://example.com/a/''"
    and "Canonicalize ''http://example.com/a/'' \<noteq> Inr ''http://example.com/a/''"
    by simp_all
  then show ?thesis
    by blast
qed




subsection \<open>C9: one probe per host\<close>

lemma pool_inv_start: "pool_inv newPool"
  by (simp add: pool_inv_def newPool_def)

lemma pool_inv_step:
  assumes "pool_step p p'" "pool_inv p"
  shows "pool_inv p'"
  using assms
proof (induction rule: pool_step.induct)
  case (acquire_ok p w t hl)
  then have new: "Host t \<notin> hosts (limiter p)"
    and hl: "hosts hl = insert (Host t) (hosts (limiter p))"
    by (auto simp: Acquire_def split: if_splits)
  from acquire_ok.prems have held: "\<And>w' t'. inFlight (workers p w') = Some t' \<Longrightarrow> Host t' \<in> hosts (limiter p)"
    and uniq: "\<And>w1 w2 t1 t2. inFlight (workers p w1) = Some t1 \<Longrightarrow> inFlight (workers p w2) = Some t2
            \<Longrightarrow> Host t1 = Host t2 \<Longrightarrow> w1 = w2"
    by (auto simp: pool_inv_def)
  show ?case
    unfolding pool_inv_def
  proof (intro conjI allI impI)
    fix w' t'
    assume "inFlight (workers (p\<lparr>limiter := hl, workers := (workers p)(w := Probing t)\<rparr>) w') = Some t'"
    then show "Host t' \<in> hosts (limiter (p\<lparr>limiter := hl, workers := (workers p)(w := Probing t)\<rparr>))"
      using held by (auto simp: hl split: if_splits)
  next
    fix w1 w2 t1 t2
    assume "inFlight (workers (p\<lparr>limiter := hl, workers := (workers p)(w := Probing t)\<rparr>) w1) = Some t1
          \<and> inFlight (workers (p\<lparr>limiter := hl, workers := (workers p)(w := Probing t)\<rparr>) w2) = Some t2
          \<and> Host t1 = Host t2"
    then have f1: "inFlight (if w1 = w then Probing t else workers p w1) = Some t1"
      and f2: "inFlight (if w2 = w then Probing t else workers p w2) = Some t2"
      and eq: "Host t1 = Host t2"
      by simp_all
    show "w1 = w2"
    proof (cases "w1 = w")
      case True
      with f1 have t1: "t1 = t" by simp
      show ?thesis
      proof (cases "w2 = w")
        case True
        with \<open>w1 = w\<close> show ?thesis by simp
      next
        case False
        with f2 have "inFlight (workers p w2) = Some t2" by simp
        from held [OF this] eq t1 new show ?thesis by simp
      qed
    next
      case False
      with f1 have g1: "inFlight (workers p w1) = Some t1" by simp
      show ?thesis
      proof (cases "w2 = w")
        case True
        with f2 have "t2 = t" by simp
        with held [OF g1] eq new show ?thesis by simp
      next
        case False
        with f2 have "inFlight (workers p w2) = Some t2" by simp
        from uniq [OF g1 this eq] show ?thesis .
      qed
    qed
  qed
next
  case (acquire_fail p w t hl)
  then have "hl = limiter p"
    by (auto simp: Acquire_def split: if_splits)
  with acquire_fail show ?case
    by (simp add: pool_inv_def)
next
  case (persist p w t env)
  let ?p' = "p\<lparr>workers := (workers p)(w := Persisted t),
              written := written p @ [probeResult t (performCheck_loop env initState)]\<rparr>"
  from persist.hyps have same: "inFlight (workers ?p' w') = inFlight (workers p w')" for w'
    by simp
  have "limiter ?p' = limiter p"
    by simp
  with persist.prems show ?case
    unfolding pool_inv_def same by simp
next
  case (release p w t)
  from release.prems have held: "\<And>w' t'. inFlight (workers p w') = Some t' \<Longrightarrow> Host t' \<in> hosts (limiter p)"
    and uniq: "\<And>w1 w2 t1 t2. inFlight (workers p w1) = Some t1 \<Longrightarrow> inFlight (workers p w2) = Some t2
            \<Longrightarrow> Host t1 = Host t2 \<Longrightarrow> w1 = w2"
    by (auto simp: pool_inv_def)
  from release.hyps have w: "inFlight (workers p w) = Some t"
    by simp
  show ?case
    unfolding pool_inv_def
  proof (intro conjI allI impI)
    fix w' t'
    assume a: "inFlight (workers (p\<lparr>limiter := Release (limiter p) (Host t),
                 workers := (workers p)(w := Idle)\<rparr>) w') = Some t'"
    then have "inFlight (if w' = w then Idle else workers p w') = Some t'"
      by simp
    then have "w' \<noteq> w" and t': "inFlight (workers p w') = Some t'"
      by (simp_all split: if_splits)
    with uniq [OF t' w] have "Host t' \<noteq> Host t"
      by blast
    with held [OF t']
    show "Host t' \<in> hosts (limiter (p\<lparr>limiter := Release (limiter p) (Host t),
                 workers := (workers p)(w := Idle)\<rparr>))"
      by (simp add: Release_def)
  next
    fix w1 w2 t1 t2
    assume "inFlight (workers (p\<lparr>limiter := Release (limiter p) (Host t),
                 workers := (workers p)(w := Idle)\<rparr>) w1) = Some t1
          \<and> inFlight (workers (p\<lparr>limiter := Release (limiter p) (Host t),
                 workers := (workers p)(w := Idle)\<rparr>) w2) = Some t2
          \<and> Host t1 = Host t2"
    then have "inFlight (if w1 = w then Idle else workers p w1) = Some t1"
      and "inFlight (if w2 = w then Idle else workers p w2) = Some t2"
      and eq: "Host t1 = Host t2"
      by simp_all
    then have "inFlight (workers p w1) = Some t1" "inFlight (workers p w2) = Some t2"
      by (simp_all split: if_splits)
    from uniq [OF this eq] show "w1 = w2" .
  qed
qed

lemma reachable_inv: "reachable p \<Longrightarrow> pool_inv p"
  by (induction rule: reachable.induct) (auto intro: pool_inv_start pool_inv_step)

text \<open>The three steps of a worker that finds its host free add up to \<open>performCheck\<close>.\<close>

lemma pool_steps_are_performCheck:
  assumes idle: "workers p w = Idle" and free: "Host t \<notin> hosts (limiter p)"
  shows "\<exists>p1 p2. pool_step p p1 \<and> pool_step p1 p2
           \<and> pool_step p2 (p\<lparr>limiter := fst (performCheck env t (limiter p)),
                               written := written p @ saved (snd (performCheck env t (limiter p)))\<rparr>)"
proof -
  let ?hl = "(limiter p)\<lparr>hosts := insert (Host t) (hosts (limiter p))\<rparr>"
  let ?p1 = "p\<lparr>limiter := ?hl, workers := (workers p)(w := Probing t)\<rparr>"
  let ?p2 = "?p1\<lparr>workers := (workers ?p1)(w := Persisted t),
                 written := written ?p1 @ [probeResult t (performCheck_loop env initState)]\<rparr>"
  let ?p3 = "?p2\<lparr>limiter := Release (limiter ?p2) (Host t), workers := (workers ?p2)(w := Idle)\<rparr>"
  have "Acquire (limiter p) (Host t) = (True, ?hl)"
    using free by (simp add: Acquire_def)
  with idle have s1: "pool_step p ?p1"
    by (rule acquire_ok)
  have s2: "pool_step ?p1 ?p2"
    by (rule persist) simp
  have s3: "pool_step ?p2 ?p3"
    by (rule release) simp
  have "(workers p)(w := Idle) = workers p"
    using idle by (simp add: fun_eq_iff)
  moreover have "Release ?hl (Host t) = limiter p"
    using free by (simp add: Release_def)
  ultimately have "?p3 = p\<lparr>limiter := fst (performCheck env t (limiter p)),
                           written := written p @ saved (snd (performCheck env t (limiter p)))\<rparr>"
    by (simp add: performCheck_acquires [OF free])
  with s1 s2 s3 show ?thesis
    by metis
qed

text \<open>
  C9. In every state that the pool can reach, two different workers never have probes
  in flight for targets with the same host. This rests on \<open>Acquire\<close>, which returns
  true exactly when the host is absent and leaves it present, and on \<open>Release\<close>,
  which removes it. A probe that does not acquire its host returns without an
  attempt and without a result, leaving the limiter as it was; a probe that does
  acquire it has released it when it returns.
\<close>

theorem C9_one_probe_per_host:
  "(reachable p \<and> w1 \<noteq> w2 \<and> inFlight (workers p w1) = Some t1 \<and> inFlight (workers p w2) = Some t2
      \<longrightarrow> Host t1 \<noteq> Host t2)
   \<and> fst (Acquire hl H) = (H \<notin> hosts hl)
   \<and> hosts (snd (Acquire hl H)) = insert H (hosts hl)
   \<and> hosts (Release hl H) = hosts hl - {H}
   \<and> (Host t \<in> hosts hl \<longrightarrow>
        performCheck env t hl = (hl, \<lparr>acquired = False, attempts_made = 0, sleeps = [], saved = []\<rparr>))
   \<and> (Host t \<notin> hosts hl \<longrightarrow>
        acquired (snd (performCheck env t hl)) \<and> fst (performCheck env t hl) = hl)"
proof -
  have "Host t1 \<noteq> Host t2"
    if "reachable p" "w1 \<noteq> w2" "inFlight (workers p w1) = Some t1" "inFlight (workers p w2) = Some t2"
    using reachable_inv [OF that(1)] that(2-) unfolding pool_inv_def by blast
  moreover have "Acquire hl H = (H \<notin> hosts hl, if H \<in> hosts hl then hl else hl\<lparr>hosts := insert H (hosts hl)\<rparr>)"
    by (simp add: Acquire_def)
  then have "fst (Acquire hl H) = (H \<notin> hosts hl)" "hosts (snd (Acquire hl H)) = insert H (hosts hl)"
    by auto
  moreover have "hosts (Release hl H) = hosts hl - {H}"
    by (simp add: Release_def)
  moreover have "performCheck env t hl = (hl, \<lparr>acquired = False, attempts_made = 0, sleeps = [], saved = []\<rparr>)"
    if "Host t \<in> hosts hl"
    using that by (simp add: performCheck_def Acquire_def)
  moreover have "acquired (snd (performCheck env t hl)) \<and> fst (performCheck env t hl) = hl"
    if "Host t \<notin> hosts hl"
    using that by (simp add: performCheck_acquires)
  ultimately show ?thesis
    by blast
qed

lemma twoInFlight_reachable: "reachable twoInFlight"
proof -
  let ?p1 = "newPool\<lparr>limiter := \<lparr>hosts = {''a.example''}\<rparr>, workers := (workers newPool)(0 := Probing targetA)\<rparr>"
  have "pool_step newPool ?p1"
    by (rule acquire_ok) (simp_all add: newPool_def NewHostLimiter_def Acquire_def targetA_def)
  then have r1: "reachable ?p1"
    by (rule step [OF start])
  have "pool_step ?p1 (?p1\<lparr>limiter := \<lparr>hosts = {''a.example'', ''b.example''}\<rparr>,
                          workers := (workers ?p1)(1 := Probing targetB)\<rparr>)"
    by (rule acquire_ok) (auto simp: newPool_def NewHostLimiter_def Acquire_def targetB_def)
  from step [OF r1 this] have "reachable (?p1\<lparr>limiter := \<lparr>hosts = {''a.example'', ''b.example''}\<rparr>,
                          workers := (workers ?p1)(1 := Probing targetB)\<rparr>)" .
  moreover have "?p1\<lparr>limiter := \<lparr>hosts = {''a.example'', ''b.example''}\<rparr>,
                          workers := (workers ?p1)(1 := Probing targetB)\<rparr> = twoInFlight"
    by (auto simp: twoInFlight_def newPool_def fun_eq_iff)
  ultimately show ?thesis by simp
qed

theorem C9_one_probe_per_host_witness:
  "reachable twoInFlight \<and> (0::nat) \<noteq> 1
   \<and> inFlight (workers twoInFlight 0) = Some targetA
   \<and> inFlight (workers twoInFlight 1) = Some targetB
   \<and> Host targetA \<noteq> Host targetB
   \<and> Host targetA2 \<in> hosts (limiter twoInFlight)
   \<and> performCheck flakyNetwork targetA2 (limiter twoInFlight)
       = (limiter twoInFlight, \<lparr>acquired = False, attempts_made = 0, sleeps = [], saved = []\<rparr>)
   \<and> Host targetA \<notin> hosts NewHostLimiter
   \<and> fst (performCheck flakyNetwork targetA NewHostLimiter) = NewHostLimiter"
proof -
  have a: "inFlight (workers twoInFlight 0) = Some targetA"
    and b: "inFlight (workers twoInFlight 1) = Some targetB"
    and c: "Host targetA2 \<in> hosts (limiter twoInFlight)"
    and d: "Host targetA \<notin> hosts NewHostLimiter"
    by (simp_all add: twoInFlight_def targetA2_def NewHostLimiter_def)
  from C9_one_probe_per_host [of twoInFlight 0 1 targetA targetB "limiter twoInFlight" "''x''"
      targetA2 flakyNetwork] twoInFlight_reachable a b c
  have "Host targetA \<noteq> Host targetB"
    and "performCheck flakyNetwork targetA2 (limiter twoInFlight)
       = (limiter twoInFlight, \<lparr>acquired = False, attempts_made = 0, sleeps = [], saved = []\<rparr>)"
    by simp_all
  moreover from C9_one_probe_per_host [of twoInFlight 0 1 targetA targetB NewHostLimiter "''x''"
      targetA flakyNetwork] d
  have "fst (performCheck flakyNetwork targetA NewHostLimiter) = NewHostLimiter"
    by simp
  ultimately show ?thesis
    using twoInFlight_reachable a b c d by simp
qed


subsection \<open>C10: malformed query parameters\<close>

lemma Atoi_empty: "Atoi [] = None"
  by (simp add: Atoi_def)

lemma limit_unusable_50:
  "limitUnusable 500 l \<Longrightarrow> ListTargets_limit l = 50"
  by (auto simp: limitUnusable_def ListTargets_limit_def split: option.splits)

lemma limit_unusable_100:
  "limitUnusable 1000 l \<Longrightarrow> ListCheckResults_limit l = 100"
  by (auto simp: limitUnusable_def ListCheckResults_limit_def split: option.splits)

lemma token_unusable_zero:
  "tokenUnusable lib token \<Longrightarrow> ListTargets_cursor lib token = (zeroTime, [])"
  by (auto simp: tokenUnusable_def ListTargets_cursor_def Cut_def Contains_def
      split: option.splits prod.splits)

lemma since_unusable_none:
  "timeParse lib s = None \<Longrightarrow> ListCheckResults_since lib s = None"
  by (simp add: ListCheckResults_since_def)

lemma absent_defaults:
  "ListTargets_limit [] = 50" "ListCheckResults_limit [] = 100"
  "ListTargets_cursor lib [] = (zeroTime, [])" "ListCheckResults_since lib [] = None"
  by (simp_all add: ListTargets_limit_def ListCheckResults_limit_def ListTargets_cursor_def
      ListCheckResults_since_def)

text \<open>
  C10. A malformed query parameter changes nothing. On \<open>GET /v1/targets\<close>, a
  \<open>limit\<close> that is not an integer or is out of range gives the response of the same
  request without \<open>limit\<close>, and a \<open>page_token\<close> that does not decode, or decodes to
  something without \<open>|\<close> or without a parsable time, gives the response of the same
  request without \<open>page_token\<close>; whenever the store call succeeds the status is 200.
  On \<open>GET /v1/targets/{id}/results\<close>, a bad \<open>limit\<close> or a \<open>since\<close> that does not
  parse gives the response of the same request without it; whenever the target exists
  and the store call succeeds the status is 200. And the SQLite store applies no
  cursor when the id or the time of the cursor is empty, which is the first page.
\<close>

theorem C10_malformed_parameters_are_ignored:
  "(limitUnusable 500 (q ''limit'') \<longrightarrow>
      Handlers_ListTargets lib store q = Handlers_ListTargets lib store (q(''limit'' := [])))
   \<and> (tokenUnusable lib (q ''page_token'') \<longrightarrow>
      Handlers_ListTargets lib store q = Handlers_ListTargets lib store (q(''page_token'' := [])))
   \<and> (snd (store (ListTargets_params lib q)) = None \<longrightarrow>
      statusOf (Handlers_ListTargets lib store q) = Some 200)
   \<and> (limitUnusable 1000 (q ''limit'') \<longrightarrow>
      Handlers_ListCheckResults lib get list path q
        = Handlers_ListCheckResults lib get list path (q(''limit'' := [])))
   \<and> (timeParse lib (q ''since'') = None \<longrightarrow>
      Handlers_ListCheckResults lib get list path q
        = Handlers_ListCheckResults lib get list path (q(''since'' := [])))
   \<and> (5 \<le> length (Split path (CHR ''/''))
       \<and> snd (get (Split path (CHR ''/'') ! 3)) = None
       \<and> snd (list (ListCheckResults_params lib (Split path (CHR ''/'') ! 3) q)) = None \<longrightarrow>
      statusOf (Handlers_ListCheckResults lib get list path q) = Some 200)
   \<and> (p_AfterID params = [] \<or> IsZero (p_AfterTime params) \<longrightarrow>
      ListTargets d params = ListTargets d (params\<lparr>p_AfterTime := zeroTime, p_AfterID := []\<rparr>))"
proof (intro conjI impI)
  assume "limitUnusable 500 (q ''limit'')"
  then have "ListTargets_params lib q = ListTargets_params lib (q(''limit'' := []))"
    by (simp add: ListTargets_params_def limit_unusable_50 absent_defaults)
  then show "Handlers_ListTargets lib store q = Handlers_ListTargets lib store (q(''limit'' := []))"
    by (simp add: Handlers_ListTargets_def)
next
  assume "tokenUnusable lib (q ''page_token'')"
  then have "ListTargets_params lib q = ListTargets_params lib (q(''page_token'' := []))"
    by (simp add: ListTargets_params_def token_unusable_zero absent_defaults)
  then show "Handlers_ListTargets lib store q = Handlers_ListTargets lib store (q(''page_token'' := []))"
    by (simp add: Handlers_ListTargets_def)
next
  assume "snd (store (ListTargets_params lib q)) = None"
  then show "statusOf (Handlers_ListTargets lib store q) = Some 200"
    by (auto simp: Handlers_ListTargets_def Let_def StatusOK_def split: prod.splits)
next
  assume "limitUnusable 1000 (q ''limit'')"
  then have eq: "ListCheckResults_params lib i q = ListCheckResults_params lib i (q(''limit'' := []))" for i
    by (simp add: ListCheckResults_params_def limit_unusable_100 absent_defaults)
  show "Handlers_ListCheckResults lib get list path q
        = Handlers_ListCheckResults lib get list path (q(''limit'' := []))"
    unfolding Handlers_ListCheckResults_def eq ..
next
  assume "timeParse lib (q ''since'') = None"
  then have eq: "ListCheckResults_params lib i q = ListCheckResults_params lib i (q(''since'' := []))" for i
    by (simp add: ListCheckResults_params_def since_unusable_none absent_defaults)
  show "Handlers_ListCheckResults lib get list path q
        = Handlers_ListCheckResults lib get list path (q(''since'' := []))"
    unfolding Handlers_ListCheckResults_def eq ..
next
  assume "5 \<le> length (Split path (CHR ''/''))
       \<and> snd (get (Split path (CHR ''/'') ! 3)) = None
       \<and> snd (list (ListCheckResults_params lib (Split path (CHR ''/'') ! 3) q)) = None"
  then show "statusOf (Handlers_ListCheckResults lib get list path q) = Some 200"
    by (auto simp: Handlers_ListCheckResults_def Let_def StatusOK_def split: prod.splits option.splits)
next
  assume "p_AfterID params = [] \<or> IsZero (p_AfterTime params)"
  then show "ListTargets d params = ListTargets d (params\<lparr>p_AfterTime := zeroTime, p_AfterID := []\<rparr>)"
    by (auto simp: ListTargets_def IsZero_def)
qed

theorem C10_malformed_parameters_are_ignored_witness:
  "limitUnusable 500 (badQuery ''limit'')
   \<and> tokenUnusable plainCodecs (badQuery ''page_token'')
   \<and> limitUnusable 1000 (badQuery ''limit'')
   \<and> timeParse plainCodecs (badQuery ''since'') = None
   \<and> Handlers_ListTargets plainCodecs (\<lambda>p. (ListTargets twoTargets p, None)) badQuery
       = Handlers_ListTargets plainCodecs (\<lambda>p. (ListTargets twoTargets p, None))
           (badQuery(''page_token'' := []))
   \<and> statusOf (Handlers_ListTargets plainCodecs (\<lambda>p. (ListTargets twoTargets p, None)) badQuery)
       = Some 200
   \<and> statusOf (Handlers_ListCheckResults plainCodecs (GetTargetByID twoTargets) (\<lambda>p. ([], None))
                 ''/v1/targets/t_a/results'' badQuery) = Some 200
   \<and> ListTargets twoTargets \<lparr>p_Host = [], p_AfterTime = noon, p_AfterID = [], p_Limit = 10\<rparr>
       = ListTargets twoTargets \<lparr>p_Host = [], p_AfterTime = zeroTime, p_AfterID = [], p_Limit = 10\<rparr>"
proof -
  let ?store = "\<lambda>p. (ListTargets twoTargets p, None :: error option)"
  let ?list = "\<lambda>p :: ListCheckResultsParams. ([] :: CheckResult list, None :: error option)"
  let ?path = "''/v1/targets/t_a/results''"
  let ?params = "\<lparr>p_Host = [], p_AfterTime = noon, p_AfterID = [], p_Limit = 10\<rparr>"
  have l5: "limitUnusable 500 (badQuery ''limit'')" and l10: "limitUnusable 1000 (badQuery ''limit'')"
    by (simp_all add: limitUnusable_def badQuery_def Atoi_def isDigit_def byte_def)
  have tk: "tokenUnusable plainCodecs (badQuery ''page_token'')"
    by (simp add: tokenUnusable_def plainCodecs_def badQuery_def Contains_def HasPrefix_def)
  have sn: "timeParse plainCodecs (badQuery ''since'') = None"
    by (simp add: plainCodecs_def badQuery_def Parse_RFC3339Nano_def)
  have ok: "snd (?store (ListTargets_params plainCodecs badQuery)) = None"
    by simp
  have parts: "Split ?path (CHR ''/'') = [[], ''v1'', ''targets'', ''t_a'', ''results'']"
    by simp
  have res: "5 \<le> length (Split ?path (CHR ''/''))
       \<and> snd (GetTargetByID twoTargets (Split ?path (CHR ''/'') ! 3)) = None
       \<and> snd (?list (ListCheckResults_params plainCodecs (Split ?path (CHR ''/'') ! 3) badQuery)) = None"
    unfolding parts twoTargets_rows by (simp add: GetTargetByID_def)
  have cur: "p_AfterID ?params = [] \<or> IsZero (p_AfterTime ?params)"
    by simp
  from C10_malformed_parameters_are_ignored
         [of badQuery plainCodecs ?store "GetTargetByID twoTargets" ?list ?path ?params twoTargets]
       l5 tk ok l10 sn res cur
  have "Handlers_ListTargets plainCodecs ?store badQuery
       = Handlers_ListTargets plainCodecs ?store (badQuery(''page_token'' := []))"
    and "statusOf (Handlers_ListTargets plainCodecs ?store badQuery) = Some 200"
    and "statusOf (Handlers_ListCheckResults plainCodecs (GetTargetByID twoTargets) ?list
                 ?path badQuery) = Some 200"
    and "ListTargets twoTargets ?params
       = ListTargets twoTargets (?params\<lparr>p_AfterTime := zeroTime, p_AfterID := []\<rparr>)"
    by blast+
  then show ?thesis
    using l5 tk l10 sn by simp
qed


end
